theory Spec2Isabelle
  imports Main "HOL-Library.Sublist" "HOL-Library.Multiset"
begin

section \<open>Strings of the Go runtime\<close>

text \<open>
  A Go string is a sequence of bytes; it is modelled as a \<^typ>\<open>string\<close>, a list of
  8-bit characters. The functions of this section are the functions of the Go standard
  library (\<^verbatim>\<open>strings\<close>, \<^verbatim>\<open>bufio\<close>) and of the pinned module
  \<^verbatim>\<open>github.com/lithammer/dedent v1.1.0\<close> that \<^verbatim>\<open>codegen.go\<close> calls on
  string literals and heredocs.
\<close>

abbreviation (input) LF :: char where "LF \<equiv> CHR 0x0A"
abbreviation (input) TAB :: char where "TAB \<equiv> CHR 0x09"
abbreviation (input) CR :: char where "CR \<equiv> CHR 0x0D"
abbreviation (input) SP :: char where "SP \<equiv> CHR 0x20"

text \<open>\<^verbatim>\<open>strings.Join(elems, sep)\<close>.\<close>

fun Join :: "string list \<Rightarrow> string \<Rightarrow> string" where
  "Join [] sep = []"
| "Join [x] sep = x"
| "Join (x # y # ys) sep = x @ sep @ Join (y # ys) sep"

text \<open>
  \<^verbatim>\<open>strings.TrimLeft(s, cutset)\<close> and \<^verbatim>\<open>strings.TrimRight(s, cutset)\<close> for a
  cutset of ASCII characters (the only cutsets of \<^verbatim>\<open>codegen.go\<close> are
  \<^verbatim>\<open>"\n"\<close> and \<^verbatim>\<open>"\n\t"\<close>): every leading, respectively trailing, byte
  of the cutset is removed.
\<close>

definition TrimLeft :: "string \<Rightarrow> string \<Rightarrow> string" where
  "TrimLeft s cutset = dropWhile (\<lambda>c. c \<in> set cutset) s"

definition TrimRight :: "string \<Rightarrow> string \<Rightarrow> string" where
  "TrimRight s cutset = rev (dropWhile (\<lambda>c. c \<in> set cutset) (rev s))"

text \<open>\<^verbatim>\<open>strings.HasPrefix\<close>, \<^verbatim>\<open>strings.HasSuffix\<close>, \<^verbatim>\<open>strings.TrimSuffix\<close>.\<close>

definition HasPrefix :: "string \<Rightarrow> string \<Rightarrow> bool" where
  "HasPrefix s p = (take (length p) s = p)"

definition HasSuffix :: "string \<Rightarrow> string \<Rightarrow> bool" where
  "HasSuffix s x = (length x \<le> length s \<and> drop (length s - length x) s = x)"

definition TrimSuffix :: "string \<Rightarrow> string \<Rightarrow> string" where
  "TrimSuffix s x = (if HasSuffix s x then take (length s - length x) s else s)"

text \<open>
  \<^verbatim>\<open>unicode.IsSpace\<close> on the UTF-8 encoding: the byte sequences of the white space
  code points U+0009..U+000D, U+0020, U+0085, U+00A0, U+1680, U+2000..U+200A, U+2028,
  U+2029, U+202F, U+205F and U+3000. Any other byte sequence, an invalid encoding
  included, decodes to a rune that is not white space.
\<close>

definition space_runes :: "string list" where
  "space_runes =
    [[CHR 0x09], [CHR 0x0A], [CHR 0x0B], [CHR 0x0C], [CHR 0x0D], [CHR 0x20],
     [CHR 0xC2, CHR 0x85], [CHR 0xC2, CHR 0xA0],
     [CHR 0xE1, CHR 0x9A, CHR 0x80],
     [CHR 0xE2, CHR 0x80, CHR 0x80], [CHR 0xE2, CHR 0x80, CHR 0x81],
     [CHR 0xE2, CHR 0x80, CHR 0x82], [CHR 0xE2, CHR 0x80, CHR 0x83],
     [CHR 0xE2, CHR 0x80, CHR 0x84], [CHR 0xE2, CHR 0x80, CHR 0x85],
     [CHR 0xE2, CHR 0x80, CHR 0x86], [CHR 0xE2, CHR 0x80, CHR 0x87],
     [CHR 0xE2, CHR 0x80, CHR 0x88], [CHR 0xE2, CHR 0x80, CHR 0x89],
     [CHR 0xE2, CHR 0x80, CHR 0x8A],
     [CHR 0xE2, CHR 0x80, CHR 0xA8], [CHR 0xE2, CHR 0x80, CHR 0xA9],
     [CHR 0xE2, CHR 0x80, CHR 0xAF], [CHR 0xE2, CHR 0x81, CHR 0x9F],
     [CHR 0xE3, CHR 0x80, CHR 0x80]]"

text \<open>The number of bytes of the white space rune that \<open>s\<close> starts with; 0 if none.\<close>

definition space_prefix :: "string list \<Rightarrow> string \<Rightarrow> nat" where
  "space_prefix runes s =
     (case find (\<lambda>r. take (length r) s = r) runes of None \<Rightarrow> 0 | Some r \<Rightarrow> length r)"

function trim_left_runes :: "string list \<Rightarrow> string \<Rightarrow> string" where
  "trim_left_runes runes s =
     (if s = [] \<or> space_prefix runes s = 0 then s
      else trim_left_runes runes (drop (space_prefix runes s) s))"
  by pat_completeness auto
termination
  by (relation "measure (\<lambda>(runes, s). length s)") auto

text \<open>
  \<^verbatim>\<open>strings.TrimSpace(s)\<close>: the white space runes at the front are removed, then
  those at the back (read backwards, so each rune's bytes are matched reversed).
\<close>

definition TrimSpace :: "string \<Rightarrow> string" where
  "TrimSpace s =
     rev (trim_left_runes (map rev space_runes) (rev (trim_left_runes space_runes s)))"

text \<open>
  \<^verbatim>\<open>bufio.Scanner\<close> with its default split function \<^verbatim>\<open>ScanLines\<close> and its
  default buffer: the tokens are the lines of the input without their end-of-line marker
  (\<^verbatim>\<open>\n\<close>, with one \<^verbatim>\<open>\r\<close> before it dropped); a last line without
  \<^verbatim>\<open>\n\<close> is a token if it is not empty. A line of \<^verbatim>\<open>MaxScanTokenSize\<close> (64 KiB)
  bytes or more does not fit the buffer: \<^verbatim>\<open>Scan\<close> stops there with
  \<^verbatim>\<open>ErrTooLong\<close>, which \<^verbatim>\<open>emitHeredocPieces\<close> never reads, so the lines
  scanned so far are all it gets.
\<close>

definition MaxScanTokenSize :: int where
  "MaxScanTokenSize = 64 * 1024"

definition dropCR :: "string \<Rightarrow> string" where
  "dropCR l = (if l \<noteq> [] \<and> last l = CR then butlast l else l)"

function scan_lines :: "string \<Rightarrow> string list" where
  "scan_lines s =
     (if s = [] then []
      else if MaxScanTokenSize \<le> int (length (takeWhile (\<lambda>c. c \<noteq> LF) s)) then []
      else dropCR (takeWhile (\<lambda>c. c \<noteq> LF) s) #
           scan_lines (drop 1 (dropWhile (\<lambda>c. c \<noteq> LF) s)))"
  by pat_completeness auto
termination
proof (relation "measure length")
  fix s :: string
  assume "s \<noteq> []"
  then have "0 < length s" by simp
  moreover have "length (dropWhile (\<lambda>c. c \<noteq> LF) s) \<le> length s"
    by (rule length_dropWhile_le)
  ultimately have "length (dropWhile (\<lambda>c. c \<noteq> LF) s) - 1 < length s"
    by arith
  then show "(drop 1 (dropWhile (\<lambda>c. c \<noteq> LF) s), s) \<in> measure length"
    by simp
qed simp

text \<open>
  \<^verbatim>\<open>dedent.Dedent(text)\<close> of lithammer/dedent v1.1.0. The lines of the text are its
  pieces between \<^verbatim>\<open>\n\<close>. Every line that holds only blanks and tabs is emptied
  (the regular expression \<^verbatim>\<open>(?m)^[ \t]+$\<close>); the indent of every line that has
  another character is collected (\<^verbatim>\<open>(?m)(^[ \t]*)(?:[^ \t\n])\<close>); the margin is
  computed over the indents in order; a margin that is not empty is removed from the
  front of every line that starts with it.
\<close>

primrec split_on :: "char \<Rightarrow> string \<Rightarrow> string list" where
  "split_on c [] = [[]]"
| "split_on c (x # xs) =
     (if x = c then [] # split_on c xs
      else (case split_on c xs of [] \<Rightarrow> [[x]] | l # ls \<Rightarrow> (x # l) # ls))"

definition blank :: "char \<Rightarrow> bool" where
  "blank c = (c = SP \<or> c = TAB)"

definition whitespaceOnly_replace :: "string list \<Rightarrow> string list" where
  "whitespaceOnly_replace ls = map (\<lambda>l. if list_all blank l then [] else l) ls"

definition leadingWhitespace_find :: "string list \<Rightarrow> string list" where
  "leadingWhitespace_find ls =
     map (takeWhile blank) (filter (\<lambda>l. dropWhile blank l \<noteq> []) ls)"

text \<open>
  The loop over the indents after the first: \<^verbatim>\<open>continue\<close> when the indent starts
  with the margin, the indent becomes the margin when the margin starts with it, and
  otherwise the margin is emptied and the loop left.
\<close>

fun margin_loop :: "string \<Rightarrow> string list \<Rightarrow> string" where
  "margin_loop margin [] = margin"
| "margin_loop margin (indent # indents) =
     (if HasPrefix indent margin then margin_loop margin indents
      else if HasPrefix margin indent then margin_loop indent indents
      else [])"

definition Dedent :: "string \<Rightarrow> string" where
  "Dedent text =
     (let ls = whitespaceOnly_replace (split_on LF text);
          margin = (case leadingWhitespace_find ls of [] \<Rightarrow> []
                    | indent # indents \<Rightarrow> margin_loop indent indents)
      in if margin \<noteq> []
         then Join (map (\<lambda>l. if HasPrefix l margin then drop (length margin) l else l) ls) [LF]
         else Join ls [LF])"


section \<open>The syntax tree\<close>

text \<open>
  The package \<^verbatim>\<open>parser/ast\<close> is not among the sources. The types below carry the
  fields and methods of the tree that \<^verbatim>\<open>codegen.go\<close> reads, under their Go names.
  A Go struct with one pointer per alternative (\<^verbatim>\<open>Expr\<close>, \<^verbatim>\<open>BasicLit\<close>,
  \<^verbatim>\<open>Stmt\<close>, the fragments) is a datatype with one constructor per alternative, in the
  order in which the code tests them, and a last constructor for the struct with no
  pointer set.
\<close>

datatype kind = KNone | KString | KInt | KBool | KFilesystem | KPipeline | KOption
  | KOptionFor string

datatype ident = Ident (Text: string)

record position =
  Filename :: string
  Line :: nat

datatype ident_expr =
  IdentExpr (ie_Pos: position) (ie_Ident: ident) (ie_Reference: "ident option")

datatype param_field =
  ParamField (Modifier: "string option") (fld_Kind: kind) (fld_Name: ident)

datatype builtin_decl = BuiltinDecl (bd_Name: string) (Kinds: "kind list")

datatype raw_heredoc_fragment = RF_Spaces string | RF_Text string | RF_Empty

datatype raw_heredoc =
  RawHeredocLit (rh_Start: string) (rh_Fragments: "raw_heredoc_fragment list")
    (rh_Terminate: string)

text \<open>
  The types of the tree refer to each other through \<^verbatim>\<open>Expr\<close>; each takes the type
  of expressions as its parameter, and \<open>expr\<close> closes the recursion. A call statement
  holds its bind clause by address: \<^verbatim>\<open>codegen.go\<close> only compares the pointer.
\<close>

datatype 'e call_expr =
  CallExpr (ce_Name: ident_expr) (ce_Signature: "kind list") (ce_Args: "'e list")

datatype 'e string_fragment = SF_Escaped string | SF_Interpolated 'e | SF_Text string
  | SF_Empty

datatype 'e string_lit = StringLit (Fragments: "'e string_fragment list")

datatype 'e heredoc_fragment = HF_Spaces string | HF_Escaped string | HF_Interpolated 'e
  | HF_Text string | HF_Empty

datatype 'e heredoc =
  HeredocLit (hd_Start: string) (hd_Fragments: "'e heredoc_fragment list")
    (hd_Terminate: string)

datatype 'e basic_lit = Decimal int | Numeric int | Bool bool | Str "'e string_lit"
  | RawString string | Heredoc "'e heredoc" | RawHeredoc raw_heredoc | BasicLitInvalid

datatype 'e call_stmt =
  CallStmt (cs_Name: ident_expr) (cs_Signature: "kind list") (cs_Args: "'e list")
    (WithClause: "'e option") (cs_BindClause: "nat option")

datatype 'e stmt = StmtCall "'e call_stmt" | StmtExpr 'e | StmtInvalid

datatype 'e block_stmt = BlockStmt (bs_Kind: kind) (Stmts: "'e stmt list")

datatype 'e func_lit = FuncLit (fl_Type: kind) (fl_Body: "'e block_stmt option")

datatype expr = ExprFuncLit "expr func_lit" | ExprBasicLit "expr basic_lit"
  | ExprCallExpr "expr call_expr" | ExprInvalid

datatype func_decl =
  FuncDecl (fd_Name: ident) (Params: "param_field list") (Body: "expr block_stmt option")
    (fd_Scope: "nat option")

datatype bind_clause = BindClause (bc_Addr: nat) (Closure: func_decl)

text \<open>
  A \<^verbatim>\<open>*BindClause\<close> is compared by address (\<^verbatim>\<open>call.BindClause == b.Bind\<close>), so a
  bind clause carries its address. A scope is referred to by its address in the store
  of scopes below; \<open>None\<close> is the nil pointer.
\<close>

datatype binding = Binding (Bind: bind_clause) (b_Name: ident)

datatype import_decl =
  ImportDecl (id_Name: ident) (id_Expr: expr) (DeprecatedPath: "expr string_lit option")

datatype directory = Directory_at string

datatype module = Module (mod_Filename: string) (Directory: directory) (mod_Scope: "nat option")

datatype node = NNil | NModule module | NExpr expr | NBasicLit "expr basic_lit"
  | NStmt "expr stmt" | NIdentExpr ident_expr | NIdent ident | NFuncDecl func_decl | NBuiltinDecl builtin_decl
  | NBindClause bind_clause | NImportDecl import_decl | NField param_field | NType kind
  | NStringLit "expr string_lit"

text \<open>\<^verbatim>\<open>ast.NewIdentExpr(name)\<close>, and the \<^verbatim>\<open>%s\<close> rendering of an identifier
  expression.\<close>

definition NewIdentExpr :: "string \<Rightarrow> ident_expr" where
  "NewIdentExpr name = IdentExpr \<lparr>Filename = [], Line = 0\<rparr> (Ident name) None"

definition IdentExpr_String :: "ident_expr \<Rightarrow> string" where
  "IdentExpr_String ie =
     (case ie_Reference ie of None \<Rightarrow> Text (ie_Ident ie)
      | Some r \<Rightarrow> Text (ie_Ident ie) @ ''.'' @ Text r)"

section \<open>Values, registers, errors\<close>

text \<open>
  A filesystem, a pipeline, an option and a request are opaque to the code generator:
  the host callables build them. They are modelled by what identifies them.
\<close>

datatype filesystem = Filesystem "string list"
datatype pipeline = Pipeline "string list"
datatype solve_option = SolveOption string
datatype option_item = HostOption string | SolveOptionItem solve_option
  | breakpointCommand "string list"
datatype request = FilesystemRequest filesystem | PipelineRequest pipeline
  | ParallelRequest "request list" | NilRequest

type_synonym OptionList = "option_item list"

text \<open>
  Modelled from the spec: the type \<^verbatim>\<open>Value\<close> and its methods are not among the
  sources. ``An opaque tagged union carrying a kind and one of: an integer, a boolean, a
  string, a Filesystem, an Option (list of option fragments), a Pipeline. Conversion to a
  concrete type fails loudly if the tag does not match.'' \<open>ZeroValue\<close> is the content of
  a fresh register; its kind is the sentinel \<^verbatim>\<open>None\<close>. Integers are Go's 64-bit
  \<^verbatim>\<open>int\<close>; the code generator only stores the literal, so no arithmetic is modelled.
\<close>

datatype Value = ZeroValue | IntValue int | BoolValue bool | StringValue string
  | FilesystemValue filesystem | OptionValue OptionList | PipelineValue pipeline

datatype frame = Frame ident_expr

text \<open>
  The types that \<^verbatim>\<open>reflect\<close> reports. Of a \<^verbatim>\<open>reflect.Kind\<close> only
  \<^verbatim>\<open>Interface\<close> is tested; \<open>rt_Methods\<close> is the method set of the type and
  \<open>rt_Elem\<close> the element type of a slice. Two \<^verbatim>\<open>reflect.Type\<close> values are equal
  when they are the same type. A function type holds the parameters before the variadic
  one in \<open>ft_Params\<close> and the element type of the variadic parameter, if it has one, in
  \<open>ft_Variadic\<close>; \<open>ft_In\<close> is the list that \<^verbatim>\<open>NumIn\<close> and \<^verbatim>\<open>In(i)\<close> read,
  where the variadic parameter is a slice.
\<close>

datatype rkind = Interface | Struct | Ptr | Slice | Func | Basic

datatype rtype =
  RType (rt_Name: string) (rt_Kind: rkind) (rt_Methods: "string list") (rt_Elem: "rtype option")

record functype =
  ft_Params :: "rtype list"
  ft_Variadic :: "rtype option"
  ft_Out :: "rtype list"

definition IsVariadic :: "functype \<Rightarrow> bool" where
  "IsVariadic t = (ft_Variadic t \<noteq> None)"



type_synonym callable = string

datatype fmt_arg = FStr string | FInt int | FCallable callable | FTypes "rtype list"

text \<open>
  The errors of the code generator. \<open>InternalError n format args\<close> is
  \<^verbatim>\<open>errdefs.WithInternalErrorf(n, format, args...)\<close>; \<open>TargetNotDefined\<close> is the
  \<^verbatim>\<open>fmt.Errorf\<close> of \<^verbatim>\<open>Generate\<close>; \<open>HostError\<close> is an error of a host collaborator;
  \<open>Panic\<close> is a run-time panic of Go; \<open>OutOfFuel\<close> stands for an evaluation that does not
  return.
\<close>

datatype error = HostError string
  | Errorf string "fmt_arg list"
  | InternalError node string "fmt_arg list"
  | UndefinedIdent ident
  | ImportPathNotExist error node string
  | BacktraceError "frame list" error
  | ErrBadCast
  | ErrSyntax
  | ErrorString string
  | Panic string
  | OutOfFuel

fun Value_Kind :: "Value \<Rightarrow> kind" where
  "Value_Kind ZeroValue = KNone"
| "Value_Kind (IntValue _) = KInt"
| "Value_Kind (BoolValue _) = KBool"
| "Value_Kind (StringValue _) = KString"
| "Value_Kind (FilesystemValue _) = KFilesystem"
| "Value_Kind (OptionValue _) = KOption"
| "Value_Kind (PipelineValue _) = KPipeline"

definition Value_String :: "Value \<Rightarrow> error + string" where
  "Value_String v = (case v of StringValue s \<Rightarrow> Inr s | _ \<Rightarrow> Inl ErrBadCast)"

definition Value_Option :: "Value \<Rightarrow> error + OptionList" where
  "Value_Option v = (case v of OptionValue os \<Rightarrow> Inr os | _ \<Rightarrow> Inl ErrBadCast)"

definition Value_Filesystem :: "Value \<Rightarrow> error + filesystem" where
  "Value_Filesystem v = (case v of FilesystemValue fs \<Rightarrow> Inr fs | _ \<Rightarrow> Inl ErrBadCast)"

text \<open>
  Modelled from the spec: the type \<^verbatim>\<open>Register\<close> (\<^verbatim>\<open>NewRegister\<close>, \<^verbatim>\<open>Set\<close>,
  \<^verbatim>\<open>SetAsync\<close>, \<^verbatim>\<open>Value\<close>) is not among the sources. ``A single-assignment cell
  holding a Value. It supports (a) synchronous Set(v) and (b) SetAsync(f) where f receives
  the register's prior value and returns a new one. Async closures chain: successive
  SetAsync calls compose so that the terminal Value() forces the chain and returns the
  final value or the first error.'' In \<^verbatim>\<open>codegen.go\<close>, \<^verbatim>\<open>SetAsync\<close> returns an
  error and \<^verbatim>\<open>Value()\<close> returns a bare \<^verbatim>\<open>Value\<close>; so the first error of the chain
  is what \<^verbatim>\<open>SetAsync\<close> returns, and the register holds the forced value of the chain
  so far. A function that writes to a register takes it and returns it updated; on an
  error the callers of \<^verbatim>\<open>codegen.go\<close> never read the register again.
\<close>

datatype Register = Register (reg_Value: Value)

definition NewRegister :: Register where
  "NewRegister = Register ZeroValue"

definition reg_Set :: "Value \<Rightarrow> Register \<Rightarrow> Register" where
  "reg_Set v r = Register v"

definition SetAsync ::
  "(Value \<Rightarrow> 's \<Rightarrow> (error + Value) \<times> 's) \<Rightarrow> Register \<Rightarrow> 's \<Rightarrow> (error + Register) \<times> 's" where
  "SetAsync f r \<sigma> =
     (case f (reg_Value r) \<sigma> of
        (Inl e, \<sigma>') \<Rightarrow> (Inl e, \<sigma>')
      | (Inr v, \<sigma>') \<Rightarrow> (Inr (Register v), \<sigma>'))"


section \<open>Contexts\<close>

text \<open>
  Modelled from the spec: the context helpers (\<^verbatim>\<open>WithProgramCounter\<close>,
  \<^verbatim>\<open>WithReturnType\<close>, \<^verbatim>\<open>WithFrame\<close>, \<^verbatim>\<open>WithArg\<close>, \<^verbatim>\<open>WithBinding\<close>,
  \<^verbatim>\<open>WithBacktraceError\<close>) are not among the sources. A context carries the program
  counter, the return type, ``a call-frame backtrace accumulated via WithFrame/WithArg''
  and the binding; ``a non-null error is wrapped with a backtrace drawn from the
  context's frame stack''.
\<close>

record ctx =
  ProgramCounter :: node
  ReturnType :: kind
  Frames :: "frame list"
  Args :: "(nat \<times> expr) list"
  ctx_Binding :: "binding option"

definition WithProgramCounter :: "ctx \<Rightarrow> node \<Rightarrow> ctx" where
  "WithProgramCounter c n = c\<lparr>ProgramCounter := n\<rparr>"

definition WithReturnType :: "ctx \<Rightarrow> kind \<Rightarrow> ctx" where
  "WithReturnType c k = c\<lparr>ReturnType := k\<rparr>"

definition WithFrame :: "ctx \<Rightarrow> frame \<Rightarrow> ctx" where
  "WithFrame c f = c\<lparr>Frames := Frames c @ [f]\<rparr>"

definition WithArg :: "ctx \<Rightarrow> nat \<Rightarrow> expr \<Rightarrow> ctx" where
  "WithArg c i arg = c\<lparr>Args := Args c @ [(i, arg)]\<rparr>"

definition WithBinding :: "ctx \<Rightarrow> binding \<Rightarrow> ctx" where
  "WithBinding c b = c\<lparr>ctx_Binding := Some b\<rparr>"

definition WithBacktraceError :: "ctx \<Rightarrow> error \<Rightarrow> error" where
  "WithBacktraceError c err = BacktraceError (Frames c) err"

text \<open>The loop \<^verbatim>\<open>for i, arg := range args { ctx = WithArg(ctx, i, arg) }\<close>.\<close>

fun WithArgs :: "ctx \<Rightarrow> nat \<Rightarrow> expr list \<Rightarrow> ctx" where
  "WithArgs c i [] = c"
| "WithArgs c i (arg # args) = WithArgs (WithArg c i arg) (Suc i) args"

section \<open>Scopes\<close>

text \<open>
  A \<^verbatim>\<open>*ast.Scope\<close> is an address in a store of scopes, since the code generator
  mutates objects that several scopes reach: \<^verbatim>\<open>lookupCall\<close> writes
  \<^verbatim>\<open>obj.Data\<close>, and \<^verbatim>\<open>EmitFuncDecl\<close> allocates a scope with
  \<^verbatim>\<open>ast.NewScope\<close> and inserts the parameters. Allocation appends to the store.
  The methods \<^verbatim>\<open>Lookup\<close>, \<^verbatim>\<open>Root\<close> and \<^verbatim>\<open>Insert\<close> are modelled from
  the spec (``Mapping from identifier to Object { kind, ident, node, data }. Scopes form
  a tree. Lookup walks outward.''). A walk over the parents that visits more scopes than
  the store holds is on a cycle and does not return.
\<close>

datatype data = DataNil | DataModule module | DataValue Value

record object =
  Kind :: kind
  obj_Ident :: ident
  Node :: node
  Data :: data

record scope =
  sc_Node :: node
  Parent :: "nat option"
  Objects :: "string \<rightharpoonup> object"

type_synonym store = "scope list"

definition deref :: "store \<Rightarrow> nat option \<Rightarrow> error + scope" where
  "deref \<sigma> p =
     (case p of None \<Rightarrow> Inl (Panic ''nil pointer dereference'')
      | Some a \<Rightarrow> if a < length \<sigma> then Inr (\<sigma> ! a)
                  else Inl (Panic ''nil pointer dereference''))"

primrec Lookup_from :: "nat \<Rightarrow> store \<Rightarrow> nat option \<Rightarrow> string \<Rightarrow> error + (nat \<times> object) option" where
  "Lookup_from 0 \<sigma> p name = Inl OutOfFuel"
| "Lookup_from (Suc k) \<sigma> p name =
     (case p of None \<Rightarrow> Inl (Panic ''nil pointer dereference'')
      | Some a \<Rightarrow>
         (case deref \<sigma> p of Inl e \<Rightarrow> Inl e
          | Inr s \<Rightarrow>
             (case Objects s name of Some obj \<Rightarrow> Inr (Some (a, obj))
              | None \<Rightarrow>
                 (case Parent s of None \<Rightarrow> Inr None
                  | Some q \<Rightarrow> Lookup_from k \<sigma> (Some q) name))))"

definition Lookup :: "store \<Rightarrow> nat option \<Rightarrow> string \<Rightarrow> error + (nat \<times> object) option" where
  "Lookup \<sigma> p name = Lookup_from (Suc (length \<sigma>)) \<sigma> p name"

primrec Root_from :: "nat \<Rightarrow> store \<Rightarrow> nat option \<Rightarrow> error + scope" where
  "Root_from 0 \<sigma> p = Inl OutOfFuel"
| "Root_from (Suc k) \<sigma> p =
     (case deref \<sigma> p of Inl e \<Rightarrow> Inl e
      | Inr s \<Rightarrow> (case Parent s of None \<Rightarrow> Inr s | Some q \<Rightarrow> Root_from k \<sigma> (Some q)))"

definition Root :: "store \<Rightarrow> nat option \<Rightarrow> error + scope" where
  "Root \<sigma> p = Root_from (Suc (length \<sigma>)) \<sigma> p"

definition NewScope :: "node \<Rightarrow> nat option \<Rightarrow> store \<Rightarrow> nat \<times> store" where
  "NewScope n parent \<sigma> =
     (length \<sigma>, \<sigma> @ [\<lparr>sc_Node = n, Parent = parent, Objects = Map.empty\<rparr>])"

definition Insert :: "nat \<Rightarrow> object \<Rightarrow> store \<Rightarrow> store" where
  "Insert a obj \<sigma> =
     \<sigma>[a := (\<sigma> ! a)\<lparr>Objects := (Objects (\<sigma> ! a))(Text (obj_Ident obj) \<mapsto> obj)\<rparr>]"

text \<open>The assignment \<^verbatim>\<open>obj.Data = d\<close> to the object found under \<open>name\<close> in the
  scope at \<open>a\<close>.\<close>

definition set_Data :: "nat \<Rightarrow> string \<Rightarrow> data \<Rightarrow> store \<Rightarrow> store" where
  "set_Data a name d \<sigma> =
     (case Objects (\<sigma> ! a) name of None \<Rightarrow> \<sigma>
      | Some obj \<Rightarrow> \<sigma>[a := (\<sigma> ! a)\<lparr>Objects := (Objects (\<sigma> ! a))(name \<mapsto> obj\<lparr>Data := d\<rparr>)\<rparr>])"

text \<open>
  Modelled from the spec: \<^verbatim>\<open>NewValue\<close> is not among the sources. The data of a
  parameter object is the bound \<^verbatim>\<open>Value\<close> (``objects for function parameters hold
  the bound Value''), which \<^verbatim>\<open>NewValue\<close> returns as it is; anything else is not a
  value.
\<close>

definition NewValue :: "data \<Rightarrow> error + Value" where
  "NewValue d = (case d of DataValue v \<Rightarrow> Inr v | _ \<Rightarrow> Inl ErrBadCast)"


section \<open>The host: collaborators and the callable registry\<close>

text \<open>
  The table \<^verbatim>\<open>Callables\<close> of \<^verbatim>\<open>codegen.go\<close>. A callable is named by its Go
  type; the key \<^verbatim>\<open>"option::image"\<close> is \<open>KOptionFor ''image''\<close>.
\<close>

definition Callables :: "(kind \<times> (string \<times> callable) list) list" where
  "Callables =
    [(KFilesystem,
      [(''scratch'', ''Scratch''), (''image'', ''Image''), (''http'', ''HTTP''),
       (''git'', ''Git''), (''local'', ''Local''), (''frontend'', ''Frontend''),
       (''run'', ''Run''), (''env'', ''Env''), (''dir'', ''Dir''), (''user'', ''User''),
       (''mkdir'', ''Mkdir''), (''mkfile'', ''Mkfile''), (''rm'', ''Rm''),
       (''copy'', ''Copy''), (''merge'', ''Merge''), (''diff'', ''Diff''),
       (''entrypoint'', ''Entrypoint''), (''cmd'', ''Cmd''), (''label'', ''Label''),
       (''expose'', ''Expose''), (''volumes'', ''Volumes''),
       (''stopSignal'', ''StopSignal''), (''dockerPush'', ''DockerPush''),
       (''dockerLoad'', ''DockerLoad''), (''download'', ''Download''),
       (''downloadTarball'', ''DownloadTarball''),
       (''downloadOCITarball'', ''DownloadOCITarball''),
       (''downloadDockerTarball'', ''DownloadDockerTarball'')]),
     (KString,
      [(''format'', ''Format''), (''template'', ''Template''),
       (''manifest'', ''Manifest''), (''localArch'', ''LocalArch''),
       (''localOs'', ''LocalOS''), (''localCwd'', ''LocalCwd''),
       (''localEnv'', ''LocalEnv''), (''localRun'', ''LocalRun'')]),
     (KPipeline,
      [(''stage'', ''Stage''), (''parallel'', ''Stage'')]),
     (KOptionFor ''image'',
      [(''resolve'', ''Resolve''), (''platform'', ''Platform'')]),
     (KOptionFor ''http'',
      [(''checksum'', ''Checksum''), (''chmod'', ''Chmod''), (''filename'', ''Filename'')]),
     (KOptionFor ''git'',
      [(''keepGitDir'', ''KeepGitDir'')]),
     (KOptionFor ''local'',
      [(''includePatterns'', ''IncludePatterns''),
       (''excludePatterns'', ''ExcludePatterns'')]),
     (KOptionFor ''frontend'',
      [(''input'', ''FrontendInput''), (''opt'', ''FrontendOpt'')]),
     (KOptionFor ''run'',
      [(''readonlyRootfs'', ''ReadonlyRootfs''), (''env'', ''RunEnv''),
       (''dir'', ''RunDir''), (''user'', ''RunUser''), (''ignoreCache'', ''IgnoreCache''),
       (''network'', ''Network''), (''security'', ''Security''), (''shlex'', ''Shlex''),
       (''host'', ''Host''), (''ssh'', ''SSH''), (''forward'', ''Forward''),
       (''secret'', ''Secret''), (''mount'', ''Mount'')]),
     (KOptionFor ''ssh'',
      [(''target'', ''MountTarget''), (''uid'', ''UID''), (''gid'', ''GID''),
       (''mode'', ''UtilChmod''), (''localPaths'', ''LocalPaths'')]),
     (KOptionFor ''secret'',
      [(''uid'', ''UID''), (''gid'', ''GID''), (''mode'', ''UtilChmod''),
       (''includePatterns'', ''IncludePatterns''),
       (''excludePatterns'', ''ExcludePatterns'')]),
     (KOptionFor ''mount'',
      [(''readonly'', ''Readonly''), (''tmpfs'', ''Tmpfs''),
       (''sourcePath'', ''SourcePath''), (''cache'', ''Cache'')]),
     (KOptionFor ''mkdir'',
      [(''createParents'', ''CreateParents''), (''chown'', ''Chown''),
       (''createdTime'', ''CreatedTime'')]),
     (KOptionFor ''mkfile'',
      [(''chown'', ''Chown''), (''createdTime'', ''CreatedTime'')]),
     (KOptionFor ''rm'',
      [(''allowNotFound'', ''AllowNotFound''), (''allowWildcard'', ''AllowWildcard'')]),
     (KOptionFor ''copy'',
      [(''followSymlinks'', ''FollowSymlinks''), (''contentsOnly'', ''ContentsOnly''),
       (''unpack'', ''Unpack''), (''createDestPath'', ''CreateDestPath''),
       (''allowWildcard'', ''CopyAllowWildcard''),
       (''allowEmptyWildcard'', ''AllowEmptyWildcard''), (''chown'', ''UtilChown''),
       (''chmod'', ''UtilChmod''), (''createdTime'', ''UtilCreatedTime''),
       (''includePatterns'', ''IncludePatterns''),
       (''excludePatterns'', ''ExcludePatterns'')]),
     (KOptionFor ''localRun'',
      [(''ignoreError'', ''IgnoreError''), (''onlyStderr'', ''OnlyStderr''),
       (''includeStderr'', ''IncludeStderr''), (''shlex'', ''Shlex'')]),
     (KOptionFor ''template'',
      [(''stringField'', ''StringField'')]),
     (KOptionFor ''manifest'',
      [(''platform'', ''Platform'')]),
     (KOptionFor ''dockerPush'',
      [(''stargz'', ''Stargz'')])]"

definition Callables_at :: "kind \<Rightarrow> string \<Rightarrow> callable option" where
  "Callables_at k name =
     (case map_of Callables k of None \<Rightarrow> None | Some byKind \<Rightarrow> map_of byKind name)"

datatype client = Client string

datatype source_file = SourceFile string

datatype rvalue = RV_ctx ctx | RV_client client | RV_Value Value | RV_Option OptionList
  | RV_Reflected rtype Value

text \<open>
  What \<^verbatim>\<open>codegen.go\<close> takes from code that is not among the sources is a parameter
  of the model, collected in one record:
  \<^item> \<open>PrototypeIn\<close>, \<open>PrototypeOut\<close>: the package variables that \<^verbatim>\<open>initCallables\<close>
    fills; \<open>Prototype_Call\<close>: the method \<^verbatim>\<open>Call\<close> of \<^verbatim>\<open>Prototype{}\<close> as
    \<^verbatim>\<open>reflect.TypeOf\<close> reports it, receiver first;
  \<^item> \<open>Method_Call\<close>: the type of the method \<^verbatim>\<open>Call\<close> of a callable, \<open>None\<close> when it
    has none; \<open>Invoke\<close>: the call \<^verbatim>\<open>c.Call(ins)\<close>, giving \<^verbatim>\<open>outs[0]\<close> and
    \<^verbatim>\<open>outs[1]\<close>, each possibly nil; \<open>Reflect\<close>: \<^verbatim>\<open>Value.Reflect\<close>;
    \<open>ErrorText\<close>: the method \<^verbatim>\<open>Error()\<close>;
  \<^item> \<open>Request\<close>: \<^verbatim>\<open>Value.Request\<close>; \<open>Parallel\<close>: \<^verbatim>\<open>solver.Parallel\<close>;
  \<^item> \<open>Breakpoint\<close>: \<^verbatim>\<open>CallStmt.Breakpoint\<close>; \<open>TargetBinding\<close>:
    \<^verbatim>\<open>BindClause.TargetBinding\<close>, \<open>None\<close> for nil;
  \<^item> \<open>Open\<close>: \<^verbatim>\<open>Directory.Open\<close>; \<open>IsNotExist\<close>: \<^verbatim>\<open>errdefs.IsNotExist\<close>;
    \<open>ModuleFilename\<close>: the constant of that name;
  \<^item> \<open>Parse\<close>, \<open>SemanticPass\<close>, \<open>Lint\<close>, \<open>Check\<close>, \<open>CheckReferences\<close>: the parser,
    the linter and the checker. A module comes with the scopes it owns; the semantic
    pass is told the first free address of the store, and the scopes of a module that
    passed the checks are allocated there.
  A callable is a function of its inputs: it does not write to the store of scopes.
\<close>

record ext =
  PrototypeIn :: "rtype list"
  PrototypeOut :: "rtype list"
  Prototype_Call :: "functype option"
  Method_Call :: "callable \<Rightarrow> functype option"
  Invoke :: "callable \<Rightarrow> rvalue list \<Rightarrow> Value option \<times> error option"
  Reflect :: "Value \<Rightarrow> rtype \<Rightarrow> error + rvalue"
  ErrorText :: "error \<Rightarrow> string"
  Request :: "Value \<Rightarrow> error + request"
  Parallel :: "request list \<Rightarrow> request"
  Breakpoint :: "expr call_stmt \<Rightarrow> kind \<Rightarrow> bool"
  TargetBinding :: "bind_clause \<Rightarrow> string \<Rightarrow> binding option"
  Open :: "directory \<Rightarrow> string \<Rightarrow> error + source_file"
  IsNotExist :: "error \<Rightarrow> bool"
  ModuleFilename :: string
  Parse :: "ctx \<Rightarrow> source_file \<Rightarrow> error + module"
  SemanticPass :: "nat \<Rightarrow> module \<Rightarrow> error option \<times> module \<times> scope list"
  Lint :: "ctx \<Rightarrow> module \<times> scope list \<Rightarrow> module \<times> scope list"
  Check :: "module \<times> scope list \<Rightarrow> error option \<times> module \<times> scope list"
  CheckReferences :: "store \<Rightarrow> module \<Rightarrow> string \<Rightarrow> error option"

text \<open>
  The struct \<^verbatim>\<open>CodeGen\<close>. A debugger reads what it is given and returns an error or
  nil; \<^verbatim>\<open>NewNoopDebugger\<close> returns nil (``a no-op implementation is valid'').
\<close>

record CodeGen =
  Debug :: "ctx \<Rightarrow> store \<Rightarrow> nat option \<Rightarrow> node \<Rightarrow> Register \<Rightarrow> OptionList \<Rightarrow> error option"
  cln :: client
  resolver :: "ctx \<Rightarrow> import_decl \<Rightarrow> filesystem \<Rightarrow> error + directory"
  extraSolveOpts :: "solve_option list"

type_synonym CodeGenOption = "CodeGen \<Rightarrow> CodeGen \<times> error option"

definition NewNoopDebugger ::
  "ctx \<Rightarrow> store \<Rightarrow> nat option \<Rightarrow> node \<Rightarrow> Register \<Rightarrow> OptionList \<Rightarrow> error option" where
  "NewNoopDebugger c \<sigma> scope n ret opts = None"

definition WithDebugger ::
  "(ctx \<Rightarrow> store \<Rightarrow> nat option \<Rightarrow> node \<Rightarrow> Register \<Rightarrow> OptionList \<Rightarrow> error option)
   \<Rightarrow> CodeGenOption" where
  "WithDebugger dbgr i = (i\<lparr>Debug := dbgr\<rparr>, None)"

definition WithExtraSolveOpts :: "solve_option list \<Rightarrow> CodeGenOption" where
  "WithExtraSolveOpts extraOpts i = (i\<lparr>extraSolveOpts := extraSolveOpts i @ extraOpts\<rparr>, None)"

fun apply_options :: "CodeGenOption list \<Rightarrow> CodeGen \<Rightarrow> CodeGen \<times> error option" where
  "apply_options [] cg = (cg, None)"
| "apply_options (opt # opts) cg =
     (case opt cg of (cg', Some err) \<Rightarrow> (cg', Some err)
      | (cg', None) \<Rightarrow> apply_options opts cg')"

definition New ::
  "client \<Rightarrow> (ctx \<Rightarrow> import_decl \<Rightarrow> filesystem \<Rightarrow> error + directory) \<Rightarrow> CodeGenOption list
   \<Rightarrow> CodeGen \<times> error option" where
  "New c r opts =
     apply_options opts
       \<lparr>Debug = NewNoopDebugger, cln = c, resolver = r, extraSolveOpts = []\<rparr>"

section \<open>The registry check\<close>










section \<open>Escapes of string literals\<close>

text \<open>
  \<^verbatim>\<open>strconv.UnquoteChar(s, quote)\<close>, of which \<^verbatim>\<open>EmitStringLit\<close> keeps the
  rune, and the conversion \<^verbatim>\<open>string(value)\<close> of a rune to its UTF-8 encoding. A
  rune is its code point; a value that does not fit a Go \<^verbatim>\<open>rune\<close> is not valid,
  as the negative number it wraps to is not.
\<close>

definition RuneError :: nat where
  "RuneError = 0xFFFD"

definition ValidRune :: "nat \<Rightarrow> bool" where
  "ValidRune r = (r < 0xD800 \<or> (0xDFFF < r \<and> r \<le> 0x10FFFF))"

definition string_of_rune :: "nat \<Rightarrow> string" where
  "string_of_rune r =
     (if r \<le> 0x7F then [char_of r]
      else if r \<le> 0x7FF then [char_of (0xC0 + r div 64), char_of (0x80 + r mod 64)]
      else if \<not> ValidRune r then [CHR 0xEF, CHR 0xBF, CHR 0xBD]
      else if r \<le> 0xFFFF
        then [char_of (0xE0 + r div 4096), char_of (0x80 + (r div 64) mod 64),
              char_of (0x80 + r mod 64)]
      else [char_of (0xF0 + r div 262144), char_of (0x80 + (r div 4096) mod 64),
            char_of (0x80 + (r div 64) mod 64), char_of (0x80 + r mod 64)])"

text \<open>\<^verbatim>\<open>utf8.DecodeRuneInString(s)\<close>, the rune only.\<close>

definition DecodeRuneInString :: "string \<Rightarrow> nat" where
  "DecodeRuneInString s =
     (case s of [] \<Rightarrow> RuneError
      | b0 # t \<Rightarrow>
         (let s0 = (of_char b0 :: nat) in
          if s0 < 0x80 then s0
          else if s0 < 0xC2 \<or> 0xF4 < s0 then RuneError
          else
            (let sz = (if s0 < 0xE0 then 2 else if s0 < 0xF0 then 3 else (4::nat));
                 lo = (if s0 = 0xE0 then 0xA0 else if s0 = 0xF0 then 0x90 else (0x80::nat));
                 hi = (if s0 = 0xED then 0x9F else if s0 = 0xF4 then 0x8F else (0xBF::nat))
             in if length s < sz then RuneError
                else
                  (let s1 = (of_char (s ! 1) :: nat) in
                   if s1 < lo \<or> hi < s1 then RuneError
                   else if sz = 2 then (s0 mod 32) * 64 + s1 mod 64
                   else
                     (let s2 = (of_char (s ! 2) :: nat) in
                      if s2 < 0x80 \<or> 0xBF < s2 then RuneError
                      else if sz = 3 then (s0 mod 16) * 4096 + (s1 mod 64) * 64 + s2 mod 64
                      else
                        (let s3 = (of_char (s ! 3) :: nat) in
                         if s3 < 0x80 \<or> 0xBF < s3 then RuneError
                         else (s0 mod 8) * 262144 + (s1 mod 64) * 4096
                              + (s2 mod 64) * 64 + s3 mod 64))))))"

definition unhex :: "char \<Rightarrow> nat option" where
  "unhex c =
     (let n = (of_char c :: nat) in
      if 48 \<le> n \<and> n \<le> 57 then Some (n - 48)
      else if 97 \<le> n \<and> n \<le> 102 then Some (n - 97 + 10)
      else if 65 \<le> n \<and> n \<le> 70 then Some (n - 65 + 10)
      else None)"

fun unhex_all :: "string \<Rightarrow> nat \<Rightarrow> nat option" where
  "unhex_all [] v = Some v"
| "unhex_all (c # cs) v =
     (case unhex c of None \<Rightarrow> None | Some d \<Rightarrow> unhex_all cs (v * 16 + d))"

fun unoct_all :: "string \<Rightarrow> nat \<Rightarrow> nat option" where
  "unoct_all [] v = Some v"
| "unoct_all (c # cs) v =
     (let n = (of_char c :: nat) in
      if n < 48 \<or> 55 < n then None else unoct_all cs (v * 8 + (n - 48)))"

text \<open>The switch of \<^verbatim>\<open>UnquoteChar\<close> on the character \<open>c\<close> after the backslash;
  \<open>s\<close> is the text after it.\<close>

definition unquote_escape :: "char \<Rightarrow> string \<Rightarrow> char \<Rightarrow> error + nat" where
  "unquote_escape c s quote =
     (if c = CHR ''a'' then Inr 7
      else if c = CHR ''b'' then Inr 8
      else if c = CHR ''f'' then Inr 12
      else if c = CHR ''n'' then Inr 10
      else if c = CHR ''r'' then Inr 13
      else if c = CHR ''t'' then Inr 9
      else if c = CHR ''v'' then Inr 11
      else if c = CHR ''x'' \<or> c = CHR ''u'' \<or> c = CHR ''U'' then
        (let n = (if c = CHR ''x'' then 2 else if c = CHR ''u'' then 4 else (8::nat)) in
         if length s < n then Inl ErrSyntax
         else (case unhex_all (take n s) 0 of None \<Rightarrow> Inl ErrSyntax
               | Some v \<Rightarrow>
                  if c = CHR ''x'' then Inr v
                  else if \<not> ValidRune v then Inl ErrSyntax
                  else Inr v))
      else if 48 \<le> (of_char c :: nat) \<and> (of_char c :: nat) \<le> 55 then
        (if length s < 2 then Inl ErrSyntax
         else (case unoct_all (take 2 s) (of_char c - 48) of None \<Rightarrow> Inl ErrSyntax
               | Some v \<Rightarrow> if 255 < v then Inl ErrSyntax else Inr v))
      else if c = CHR 0x5C then Inr 92
      else if c = CHR 0x27 \<or> c = CHR 0x22 then
        (if c \<noteq> quote then Inl ErrSyntax else Inr (of_char c))
      else Inl ErrSyntax)"

definition UnquoteChar :: "string \<Rightarrow> char \<Rightarrow> error + nat" where
  "UnquoteChar s quote =
     (case s of [] \<Rightarrow> Inl ErrSyntax
      | c # rest \<Rightarrow>
         if c = quote \<and> (quote = CHR 0x27 \<or> quote = CHR 0x22) then Inl ErrSyntax
         else if 0x80 \<le> (of_char c :: nat) then Inr (DecodeRuneInString s)
         else if c \<noteq> CHR 0x5C then Inr (of_char c)
         else (case rest of [] \<Rightarrow> Inl ErrSyntax
               | c1 # s2 \<Rightarrow> unquote_escape c1 s2 quote))"

section \<open>The code generator\<close>

subsection \<open>Heredocs without interpolation\<close>

definition emitHeredocPieces :: "string \<Rightarrow> string \<Rightarrow> string list \<Rightarrow> Register \<Rightarrow> Register" where
  "emitHeredocPieces start terminate pieces ret =
     (let raw = Join pieces [];
          raw = TrimRight (TrimLeft raw [LF]) [LF, TAB];
          opener = TrimSuffix start terminate
      in if opener = ''<<-'' then reg_Set (StringValue (Dedent raw)) ret
         else if opener = ''<<~''
           then reg_Set (StringValue (Join (map TrimSpace (scan_lines (TrimSpace raw))) '' '')) ret
         else reg_Set (StringValue raw) ret)"

fun raw_pieces :: "raw_heredoc_fragment list \<Rightarrow> string list \<Rightarrow> string list" where
  "raw_pieces [] pieces = pieces"
| "raw_pieces (RF_Spaces sp # fs) pieces = raw_pieces fs (pieces @ [sp])"
| "raw_pieces (RF_Text t # fs) pieces = raw_pieces fs (pieces @ [t])"
| "raw_pieces (RF_Empty # fs) pieces = raw_pieces fs pieces"

definition EmitRawHeredoc :: "raw_heredoc \<Rightarrow> Register \<Rightarrow> Register" where
  "EmitRawHeredoc heredoc ret =
     (let pieces = raw_pieces (rh_Fragments heredoc) [];
          terminate = ''`'' @ rh_Terminate heredoc @ ''`''
      in emitHeredocPieces (rh_Start heredoc) terminate pieces ret)"

subsection \<open>Built-in calls\<close>

fun first_callable :: "kind list \<Rightarrow> string \<Rightarrow> callable option" where
  "first_callable [] name = None"
| "first_callable (k # ks) name =
     (case Callables_at k name of Some c \<Rightarrow> Some c | None \<Rightarrow> first_callable ks name)"

text \<open>The loops that reflect the arguments: each argument with the type it is coerced
  to, in order, up to the first error.\<close>

fun reflect_args :: "ext \<Rightarrow> (Value \<times> rtype) list \<Rightarrow> error + rvalue list" where
  "reflect_args x [] = Inr []"
| "reflect_args x ((arg, param) # rest) =
     (case Reflect x arg param of Inl e \<Rightarrow> Inl e
      | Inr v \<Rightarrow> (case reflect_args x rest of Inl e \<Rightarrow> Inl e | Inr vs \<Rightarrow> Inr (v # vs)))"

text \<open>
  The inputs \<^verbatim>\<open>ins\<close> that \<^verbatim>\<open>EmitBuiltinDecl\<close> builds for the method type \<open>t\<close>.
  \<^verbatim>\<open>numIn\<close> is the number of parameters before the variadic one. The counts are
  integers, as \<^verbatim>\<open>numIn - len(PrototypeIn)\<close> may be negative: then no regular argument
  is reflected, and the variadic loop starts below zero and panics on \<^verbatim>\<open>args[i]\<close>.
\<close>

definition builtin_ins ::
  "ext \<Rightarrow> ctx \<Rightarrow> client \<Rightarrow> builtin_decl \<Rightarrow> functype \<Rightarrow> Value list \<Rightarrow> OptionList \<Rightarrow> Value
   \<Rightarrow> error + rvalue list" where
  "builtin_ins x c cl bd t args opts v =
     (let ins = [RV_ctx c, RV_client cl, RV_Value v, RV_Option opts];
          numIn = int (length (ft_Params t));
          expected = numIn - int (length (PrototypeIn x))
      in if int (length args) < expected
         then Inl (InternalError (ProgramCounter c) ''`%s` expected %d args, got %d''
                     [FStr (bd_Name bd), FInt expected, FInt (int (length args))])
         else
           (case reflect_args x
                   (zip (take (nat expected) args)
                        (drop (length (PrototypeIn x)) (ft_Params t))) of
              Inl e \<Rightarrow> Inl e
            | Inr regular \<Rightarrow>
               (case ft_Variadic t of
                  None \<Rightarrow> Inr (ins @ regular)
                | Some param \<Rightarrow>
                   if expected < 0 then Inl (Panic ''index out of range'')
                   else
                     (case reflect_args x
                             (map (\<lambda>arg. (arg, param)) (drop (nat expected) args)) of
                        Inl e \<Rightarrow> Inl e
                      | Inr variadic \<Rightarrow> Inr (ins @ regular @ variadic)))))"

text \<open>
  \<^verbatim>\<open>EmitBuiltinDecl\<close>. \<^verbatim>\<open>Call\<close> panics on too few or too many inputs; that
  each input is assignable to its parameter is what \<^verbatim>\<open>CheckPrototype\<close> and
  \<^verbatim>\<open>Reflect\<close> are there for, and is not modelled.
\<close>

definition EmitBuiltinDecl ::
  "ext \<Rightarrow> CodeGen \<Rightarrow> ctx \<Rightarrow> nat option \<Rightarrow> builtin_decl \<Rightarrow> Value list \<Rightarrow> OptionList
   \<Rightarrow> binding option \<Rightarrow> Value \<Rightarrow> error + Value" where
  "EmitBuiltinDecl x cg c scope bd args opts b v =
     (case (if ReturnType c \<noteq> KNone then Callables_at (ReturnType c) (bd_Name bd)
            else first_callable (Kinds bd) (bd_Name bd)) of
        None \<Rightarrow> Inl (InternalError (ProgramCounter c) ''unrecognized builtin `%s`''
                       [FStr (bd_Name bd)])
      | Some callable \<Rightarrow>
         (let c = (case b of None \<Rightarrow> c | Some bb \<Rightarrow> WithBinding c bb);
              opts = opts @ map SolveOptionItem (extraSolveOpts cg)
          in (case Method_Call x callable of
                None \<Rightarrow> Inl (Panic ''reflect: call of reflect.Value.Type on zero Value'')
              | Some t \<Rightarrow>
                 (case builtin_ins x c (cln cg) bd t args opts v of Inl e \<Rightarrow> Inl e
                  | Inr ins \<Rightarrow>
                     if length ins < length (ft_Params t)
                     then Inl (Panic ''reflect: Call with too few input arguments'')
                     else if \<not> IsVariadic t \<and> length (ft_Params t) < length ins
                     then Inl (Panic ''reflect: Call with too many input arguments'')
                     else
                       (case Invoke x callable ins of
                          (_, Some err) \<Rightarrow> Inl (WithBacktraceError c err)
                        | (None, None) \<Rightarrow>
                            Inl (Panic ''interface conversion: interface is nil, not codegen.Value'')
                        | (Some v', None) \<Rightarrow> Inr v')))))"

subsection \<open>The recursive part\<close>

text \<open>
  The functions of the code generator call each other, and a function of the program
  under evaluation may call itself, so an evaluation need not return. The model counts
  the depth of the calls: \<^verbatim>\<open>EmitExpr\<close>, \<^verbatim>\<open>EmitBlock\<close> and
  \<^verbatim>\<open>EmitIdentExpr\<close> are reached through a record of entry points, \<open>callbacks\<close>, and
  \<open>run x n\<close> gives the entry points that allow \<open>n\<close> more nested entries; at depth 0 an
  entry does not return (\<open>OutOfFuel\<close>). Every other call is a direct call. A function
  that takes a \<^verbatim>\<open>Register\<close> returns it updated, with the store of scopes.
\<close>

type_synonym 'a result = "(error + 'a) \<times> store"

record callbacks =
  rEmitExpr ::
    "CodeGen \<Rightarrow> ctx \<Rightarrow> nat option \<Rightarrow> expr \<Rightarrow> Value list \<Rightarrow> OptionList \<Rightarrow> binding option
     \<Rightarrow> Register \<Rightarrow> store \<Rightarrow> Register result"
  rEmitBlock ::
    "CodeGen \<Rightarrow> ctx \<Rightarrow> nat option \<Rightarrow> expr block_stmt option \<Rightarrow> binding option
     \<Rightarrow> Register \<Rightarrow> store \<Rightarrow> Register result"
  rEmitIdentExpr ::
    "CodeGen \<Rightarrow> ctx \<Rightarrow> nat option \<Rightarrow> ident_expr \<Rightarrow> ident \<Rightarrow> Value list \<Rightarrow> OptionList
     \<Rightarrow> binding option \<Rightarrow> Register \<Rightarrow> store \<Rightarrow> Register result"

text \<open>\<^verbatim>\<open>EmitStringLit\<close>: the loop over the fragments, then the join.\<close>

fun EmitStringLit_loop ::
  "callbacks \<Rightarrow> CodeGen \<Rightarrow> ctx \<Rightarrow> nat option \<Rightarrow> expr string_fragment list \<Rightarrow> string list
   \<Rightarrow> store \<Rightarrow> string list result" where
  "EmitStringLit_loop rc cg c scope [] pieces \<sigma> = (Inr pieces, \<sigma>)"
| "EmitStringLit_loop rc cg c scope (f # fs) pieces \<sigma> =
     (case f of
        SF_Escaped escaped \<Rightarrow>
          if length escaped < 2 then (Inl (Panic ''index out of range''), \<sigma>)
          else if escaped ! 1 = CHR ''$''
            then EmitStringLit_loop rc cg c scope fs (pieces @ [''$'']) \<sigma>
          else (case UnquoteChar escaped (CHR 0x22) of
                  Inl err \<Rightarrow> (Inl err, \<sigma>)
                | Inr v \<Rightarrow>
                    EmitStringLit_loop rc cg c scope fs (pieces @ [string_of_rune v]) \<sigma>)
      | SF_Interpolated e \<Rightarrow>
          (case rEmitExpr rc cg c scope e [] [] None NewRegister \<sigma> of
             (Inl err, \<sigma>') \<Rightarrow> (Inl err, \<sigma>')
           | (Inr exprRet, \<sigma>') \<Rightarrow>
              (case Value_String (reg_Value exprRet) of
                 Inl err \<Rightarrow> (Inl err, \<sigma>')
               | Inr piece \<Rightarrow> EmitStringLit_loop rc cg c scope fs (pieces @ [piece]) \<sigma>'))
      | SF_Text t \<Rightarrow> EmitStringLit_loop rc cg c scope fs (pieces @ [t]) \<sigma>
      | SF_Empty \<Rightarrow> EmitStringLit_loop rc cg c scope fs pieces \<sigma>)"

definition EmitStringLit ::
  "callbacks \<Rightarrow> CodeGen \<Rightarrow> ctx \<Rightarrow> nat option \<Rightarrow> expr string_lit \<Rightarrow> Register \<Rightarrow> store
   \<Rightarrow> Register result" where
  "EmitStringLit rc cg c scope str ret \<sigma> =
     (case EmitStringLit_loop rc cg c scope (Fragments str) [] \<sigma> of
        (Inl err, \<sigma>') \<Rightarrow> (Inl err, \<sigma>')
      | (Inr pieces, \<sigma>') \<Rightarrow> (Inr (reg_Set (StringValue (Join pieces [])) ret), \<sigma>'))"

fun EmitHeredoc_loop ::
  "callbacks \<Rightarrow> CodeGen \<Rightarrow> ctx \<Rightarrow> nat option \<Rightarrow> expr heredoc_fragment list \<Rightarrow> string list
   \<Rightarrow> store \<Rightarrow> string list result" where
  "EmitHeredoc_loop rc cg c scope [] pieces \<sigma> = (Inr pieces, \<sigma>)"
| "EmitHeredoc_loop rc cg c scope (f # fs) pieces \<sigma> =
     (case f of
        HF_Spaces sp \<Rightarrow> EmitHeredoc_loop rc cg c scope fs (pieces @ [sp]) \<sigma>
      | HF_Escaped escaped \<Rightarrow>
          if length escaped < 2 then (Inl (Panic ''index out of range''), \<sigma>)
          else if escaped ! 1 = CHR ''$''
            then EmitHeredoc_loop rc cg c scope fs (pieces @ [''$'']) \<sigma>
          else EmitHeredoc_loop rc cg c scope fs (pieces @ [escaped]) \<sigma>
      | HF_Interpolated e \<Rightarrow>
          (case rEmitExpr rc cg c scope e [] [] None NewRegister \<sigma> of
             (Inl err, \<sigma>') \<Rightarrow> (Inl err, \<sigma>')
           | (Inr exprRet, \<sigma>') \<Rightarrow>
              (case Value_String (reg_Value exprRet) of
                 Inl err \<Rightarrow> (Inl err, \<sigma>')
               | Inr piece \<Rightarrow> EmitHeredoc_loop rc cg c scope fs (pieces @ [piece]) \<sigma>'))
      | HF_Text t \<Rightarrow> EmitHeredoc_loop rc cg c scope fs (pieces @ [t]) \<sigma>
      | HF_Empty \<Rightarrow> EmitHeredoc_loop rc cg c scope fs pieces \<sigma>)"

definition EmitHeredoc ::
  "callbacks \<Rightarrow> CodeGen \<Rightarrow> ctx \<Rightarrow> nat option \<Rightarrow> expr heredoc \<Rightarrow> Register \<Rightarrow> store
   \<Rightarrow> Register result" where
  "EmitHeredoc rc cg c scope heredoc ret \<sigma> =
     (case EmitHeredoc_loop rc cg c scope (hd_Fragments heredoc) [] \<sigma> of
        (Inl err, \<sigma>') \<Rightarrow> (Inl err, \<sigma>')
      | (Inr pieces, \<sigma>') \<Rightarrow>
          (Inr (emitHeredocPieces (hd_Start heredoc) (hd_Terminate heredoc) pieces ret), \<sigma>'))"

definition EmitBasicLit ::
  "callbacks \<Rightarrow> CodeGen \<Rightarrow> ctx \<Rightarrow> nat option \<Rightarrow> expr basic_lit \<Rightarrow> Register \<Rightarrow> store
   \<Rightarrow> Register result" where
  "EmitBasicLit rc cg c scope lit ret \<sigma> =
     (case lit of
        Decimal d \<Rightarrow> (Inr (reg_Set (IntValue d) ret), \<sigma>)
      | Numeric n \<Rightarrow> (Inr (reg_Set (IntValue n) ret), \<sigma>)
      | Bool bv \<Rightarrow> (Inr (reg_Set (BoolValue bv) ret), \<sigma>)
      | Str str \<Rightarrow> EmitStringLit rc cg c scope str ret \<sigma>
      | RawString t \<Rightarrow> (Inr (reg_Set (StringValue t) ret), \<sigma>)
      | Heredoc h \<Rightarrow> EmitHeredoc rc cg c scope h ret \<sigma>
      | RawHeredoc h \<Rightarrow> (Inr (EmitRawHeredoc h ret), \<sigma>)
      | BasicLitInvalid \<Rightarrow> (Inl (InternalError (NBasicLit lit) ''invalid basic lit'' []), \<sigma>))"

text \<open>\<^verbatim>\<open>Evaluate\<close>: the length test, then the loop, in which the context of one
  expression is the context updated for the expressions before it.\<close>

fun Evaluate_loop ::
  "callbacks \<Rightarrow> CodeGen \<Rightarrow> ctx \<Rightarrow> nat option \<Rightarrow> binding option \<Rightarrow> (kind \<times> expr) list
   \<Rightarrow> Value list \<Rightarrow> store \<Rightarrow> Value list result" where
  "Evaluate_loop rc cg c scope b [] values \<sigma> = (Inr values, \<sigma>)"
| "Evaluate_loop rc cg c scope b ((k, e) # rest) values \<sigma> =
     (let c = WithProgramCounter c (NExpr e);
          c = WithReturnType c k
      in (case rEmitExpr rc cg c scope e [] [] b NewRegister \<sigma> of
            (Inl err, \<sigma>') \<Rightarrow> (Inl err, \<sigma>')
          | (Inr ret, \<sigma>') \<Rightarrow>
              Evaluate_loop rc cg c scope b rest (values @ [reg_Value ret]) \<sigma>'))"

definition Evaluate ::
  "callbacks \<Rightarrow> CodeGen \<Rightarrow> ctx \<Rightarrow> nat option \<Rightarrow> binding option \<Rightarrow> kind list \<Rightarrow> expr list
   \<Rightarrow> store \<Rightarrow> Value list result" where
  "Evaluate rc cg c scope b kinds exprs \<sigma> =
     (if length kinds \<noteq> length exprs
      then (Inl (InternalError (ProgramCounter c) ''expected %d kinds but got %d''
                   [FInt (int (length exprs)), FInt (int (length kinds))]), \<sigma>)
      else Evaluate_loop rc cg c scope b (zip kinds exprs) [] \<sigma>)"


text \<open>
  \<^verbatim>\<open>EmitImport\<close>. The result is the imported module and the file name; on an error
  the callers read neither. The deferred \<^verbatim>\<open>rc.Close()\<close> has no effect on what the
  function returns.
\<close>

definition import_target ::
  "ext \<Rightarrow> CodeGen \<Rightarrow> ctx \<Rightarrow> module \<Rightarrow> import_decl \<Rightarrow> Value \<Rightarrow> error + directory \<times> string" where
  "import_target x cg c mdl imp val =
     (case Value_Kind val of
        KFilesystem \<Rightarrow>
          (case Value_Filesystem val of Inl err \<Rightarrow> Inl err
           | Inr fs \<Rightarrow>
              (case resolver cg c imp fs of Inl err \<Rightarrow> Inl err
               | Inr dir \<Rightarrow> Inr (dir, ModuleFilename x)))
      | KString \<Rightarrow>
          (case Value_String val of Inl err \<Rightarrow> Inl err
           | Inr filename \<Rightarrow> Inr (Directory mdl, filename))
      | _ \<Rightarrow> Inr (Directory mdl, []))"

definition not_exist_node :: "import_decl \<Rightarrow> node" where
  "not_exist_node imp =
     (case DeprecatedPath imp of Some p \<Rightarrow> NStringLit p
      | None \<Rightarrow>
         (case id_Expr imp of ExprFuncLit fl \<Rightarrow> NType (fl_Type fl)
          | _ \<Rightarrow> NExpr (id_Expr imp)))"

text \<open>The lines of \<^verbatim>\<open>EmitImport\<close> after the file is open: parse, set the directory,
  semantic pass, lint with its errors dropped, check.\<close>

definition load_module ::
  "ext \<Rightarrow> ctx \<Rightarrow> nat \<Rightarrow> directory \<Rightarrow> source_file \<Rightarrow> error + module \<times> scope list" where
  "load_module x c base dir f =
     (case Parse x c f of Inl err \<Rightarrow> Inl err
      | Inr imod \<Rightarrow>
         (case SemanticPass x base (Module (mod_Filename imod) dir (mod_Scope imod)) of
            (Some err, _) \<Rightarrow> Inl err
          | (None, checked) \<Rightarrow>
             (case Check x (Lint x c checked) of
                (Some err, _) \<Rightarrow> Inl err
              | (None, imod', scopes) \<Rightarrow> Inr (imod', scopes))))"

definition EmitImport ::
  "ext \<Rightarrow> callbacks \<Rightarrow> CodeGen \<Rightarrow> ctx \<Rightarrow> module \<Rightarrow> import_decl \<Rightarrow> store
   \<Rightarrow> (module \<times> string) result" where
  "EmitImport x rc cg c mdl imp \<sigma> =
     (let c = WithReturnType c KNone in
      case rEmitExpr rc cg c (mod_Scope mdl) (id_Expr imp) [] [] None NewRegister \<sigma> of
        (Inl err, \<sigma>') \<Rightarrow> (Inl err, \<sigma>')
      | (Inr ret, \<sigma>') \<Rightarrow>
         (case import_target x cg c mdl imp (reg_Value ret) of
            Inl err \<Rightarrow> (Inl err, \<sigma>')
          | Inr (dir, filename) \<Rightarrow>
             (case Open x dir filename of
                Inl err \<Rightarrow>
                  if \<not> IsNotExist x err then (Inl err, \<sigma>')
                  else (Inl (ImportPathNotExist err (not_exist_node imp) filename), \<sigma>')
              | Inr f \<Rightarrow>
                 (case load_module x c (length \<sigma>') dir f of
                    Inl err \<Rightarrow> (Inl err, \<sigma>')
                  | Inr (imod, scopes) \<Rightarrow> (Inr (imod, filename), \<sigma>' @ scopes)))))"

definition lookupCall ::
  "ext \<Rightarrow> callbacks \<Rightarrow> CodeGen \<Rightarrow> ctx \<Rightarrow> nat option \<Rightarrow> ident \<Rightarrow> store \<Rightarrow> unit result" where
  "lookupCall x rc cg c scope lookup \<sigma> =
     (case Lookup \<sigma> scope (Text lookup) of
        Inl err \<Rightarrow> (Inl err, \<sigma>)
      | Inr None \<Rightarrow> (Inl (UndefinedIdent lookup), \<sigma>)
      | Inr (Some (a, obj)) \<Rightarrow>
         (case Node obj of
            NImportDecl n \<Rightarrow>
              (case Data obj of
                 DataModule _ \<Rightarrow> (Inr (), \<sigma>)
               | _ \<Rightarrow>
                  (case Root \<sigma> scope of Inl err \<Rightarrow> (Inl err, \<sigma>)
                   | Inr root \<Rightarrow>
                      (case sc_Node root of
                         NModule mdl \<Rightarrow>
                           (case EmitImport x rc cg c mdl n \<sigma> of
                              (Inl err, \<sigma>') \<Rightarrow> (Inl err, \<sigma>')
                            | (Inr (imod, _), \<sigma>') \<Rightarrow>
                               (let \<sigma>'' = set_Data a (Text lookup) (DataModule imod) \<sigma>' in
                                case CheckReferences x \<sigma>'' mdl (Text (id_Name n)) of
                                  Some err \<Rightarrow> (Inl err, \<sigma>'')
                                | None \<Rightarrow> (Inr (), \<sigma>'')))
                       | _ \<Rightarrow> (Inl (Panic ''interface conversion: not *ast.Module''), \<sigma>))))
          | _ \<Rightarrow> (Inr (), \<sigma>)))"

text \<open>\<^verbatim>\<open>EmitFuncDecl\<close>: the arity test, the new scope with the parameters that have
  no modifier, the debugger, the body.\<close>

fun insert_params :: "nat \<Rightarrow> (param_field \<times> Value) list \<Rightarrow> store \<Rightarrow> store" where
  "insert_params a [] \<sigma> = \<sigma>"
| "insert_params a ((param, arg) # rest) \<sigma> =
     (if Modifier param \<noteq> None then insert_params a rest \<sigma>
      else insert_params a rest
             (Insert a \<lparr>Kind = fld_Kind param, obj_Ident = fld_Name param,
                        Node = NField param, Data = DataValue arg\<rparr> \<sigma>))"

definition EmitFuncDecl ::
  "callbacks \<Rightarrow> CodeGen \<Rightarrow> ctx \<Rightarrow> func_decl \<Rightarrow> Value list \<Rightarrow> binding option \<Rightarrow> Register
   \<Rightarrow> store \<Rightarrow> Register result" where
  "EmitFuncDecl rc cg c fn args b ret \<sigma> =
     (let c = WithProgramCounter c (NIdent (fd_Name fn));
          params = Params fn
      in if length params \<noteq> length args
         then (let name = (case b of None \<Rightarrow> Text (fd_Name fn) | Some bb \<Rightarrow> Text (b_Name bb))
               in (Inl (InternalError (ProgramCounter c) ''`%s` expected %d args, got %d''
                          [FStr name, FInt (int (length params)), FInt (int (length args))]), \<sigma>))
         else
           (case NewScope (NFuncDecl fn) (fd_Scope fn) \<sigma> of
              (scope, \<sigma>1) \<Rightarrow>
                (let \<sigma>2 = insert_params scope (zip params args) \<sigma>1 in
                 case Debug cg c \<sigma>2 (Some scope) (NIdent (fd_Name fn)) ret [] of
                   Some err \<Rightarrow> (Inl err, \<sigma>2)
                 | None \<Rightarrow> rEmitBlock rc cg c (Some scope) (Body fn) b ret \<sigma>2)))"

definition EmitBinding ::
  "callbacks \<Rightarrow> CodeGen \<Rightarrow> ctx \<Rightarrow> binding option \<Rightarrow> Value list \<Rightarrow> Register \<Rightarrow> store
   \<Rightarrow> Register result" where
  "EmitBinding rc cg c b args ret \<sigma> =
     (case b of None \<Rightarrow> (Inl (Panic ''nil pointer dereference''), \<sigma>)
      | Some bb \<Rightarrow> EmitFuncDecl rc cg c (Closure (Bind bb)) args b ret \<sigma>)"

definition EmitIdentExpr ::
  "ext \<Rightarrow> callbacks \<Rightarrow> CodeGen \<Rightarrow> ctx \<Rightarrow> nat option \<Rightarrow> ident_expr \<Rightarrow> ident \<Rightarrow> Value list
   \<Rightarrow> OptionList \<Rightarrow> binding option \<Rightarrow> Register \<Rightarrow> store \<Rightarrow> Register result" where
  "EmitIdentExpr x rc cg c scope ie lookup args opts b ret \<sigma> =
     (let c = WithProgramCounter c (NIdentExpr ie) in
      case Lookup \<sigma> scope (Text lookup) of
        Inl err \<Rightarrow> (Inl err, \<sigma>)
      | Inr None \<Rightarrow> (Inl (UndefinedIdent lookup), \<sigma>)
      | Inr (Some (a, obj)) \<Rightarrow>
         (case Node obj of
            NBuiltinDecl n \<Rightarrow>
              SetAsync (\<lambda>v \<sigma>. (EmitBuiltinDecl x cg c scope n args opts b v, \<sigma>)) ret \<sigma>
          | NFuncDecl n \<Rightarrow> EmitFuncDecl rc cg c n args None ret \<sigma>
          | NBindClause n \<Rightarrow>
              EmitBinding rc cg c (TargetBinding x n (Text lookup)) args ret \<sigma>
          | NImportDecl n \<Rightarrow>
              (case Data obj of
                 DataModule imod \<Rightarrow>
                   (case ie_Reference ie of
                      None \<Rightarrow> (Inl (Panic ''nil pointer dereference''), \<sigma>)
                    | Some ref \<Rightarrow>
                        rEmitIdentExpr rc cg c (mod_Scope imod) ie ref args opts None ret \<sigma>)
               | _ \<Rightarrow>
                  (Inl (InternalError (ProgramCounter c)
                          ''expected imported module to be resolved'' []), \<sigma>))
          | NField n \<Rightarrow>
              (case NewValue (Data obj) of
                 Inl err \<Rightarrow> (Inl err, \<sigma>)
               | Inr val \<Rightarrow>
                  if Value_Kind val \<noteq> KOption \<or> Value_Kind (reg_Value ret) \<noteq> KOption
                  then (Inr (reg_Set val ret), \<sigma>)
                  else
                    (case Value_Option (reg_Value ret) of
                       Inl err \<Rightarrow> (Inl err, \<sigma>)
                     | Inr retOpts \<Rightarrow>
                        (case Value_Option val of
                           Inl err \<Rightarrow> (Inl err, \<sigma>)
                         | Inr valOpts \<Rightarrow>
                            (Inr (reg_Set (OptionValue (retOpts @ valOpts)) ret), \<sigma>))))
          | n \<Rightarrow> (Inl (InternalError n ''invalid resolved object'' []), \<sigma>)))"

definition EmitCallExpr ::
  "ext \<Rightarrow> callbacks \<Rightarrow> CodeGen \<Rightarrow> ctx \<Rightarrow> nat option \<Rightarrow> expr call_expr \<Rightarrow> Register \<Rightarrow> store
   \<Rightarrow> Register result" where
  "EmitCallExpr x rc cg c scope call ret \<sigma> =
     (let c = WithFrame c (Frame (ce_Name call)) in
      case Debug cg c \<sigma> scope (NIdentExpr (ce_Name call)) ret [] of
        Some err \<Rightarrow> (Inl err, \<sigma>)
      | None \<Rightarrow>
         (case Evaluate rc cg c scope None (ce_Signature call) (ce_Args call) \<sigma> of
            (Inl err, \<sigma>') \<Rightarrow> (Inl err, \<sigma>')
          | (Inr args, \<sigma>') \<Rightarrow>
             (let c = WithArgs c 0 (ce_Args call) in
              EmitIdentExpr x rc cg c scope (ce_Name call) (ie_Ident (ce_Name call))
                args [] None ret \<sigma>')))"

text \<open>\<^verbatim>\<open>EmitCallStmt\<close>: the options of the \<^verbatim>\<open>with\<close> clause, the command of a
  breakpoint, the debugger, the binding, the dispatch.\<close>

fun breakpoint_command :: "Value list \<Rightarrow> string list \<Rightarrow> error + string list" where
  "breakpoint_command [] command = Inr command"
| "breakpoint_command (arg # args) command =
     (if Value_Kind arg \<noteq> KString then Inl (ErrorString ''breakpoint args must be strings'')
      else (case Value_String arg of Inl err \<Rightarrow> Inl err
            | Inr argStr \<Rightarrow> breakpoint_command args (command @ [argStr])))"

definition with_options ::
  "ext \<Rightarrow> callbacks \<Rightarrow> CodeGen \<Rightarrow> ctx \<Rightarrow> nat option \<Rightarrow> expr call_stmt \<Rightarrow> binding option
   \<Rightarrow> store \<Rightarrow> OptionList result" where
  "with_options x rc cg c scope call b \<sigma> =
     (case WithClause call of
        None \<Rightarrow> (Inr [], \<sigma>)
      | Some e \<Rightarrow>
         (let kinds = [KOptionFor (IdentExpr_String (cs_Name call))] in
          case Evaluate rc cg c scope b kinds [e] \<sigma> of
            (Inl err, \<sigma>') \<Rightarrow> (Inl err, \<sigma>')
          | (Inr values, \<sigma>') \<Rightarrow>
             (case values of
                [] \<Rightarrow> (Inl (Panic ''index out of range''), \<sigma>')
              | v0 # _ \<Rightarrow>
                 (case Value_Option v0 of Inl err \<Rightarrow> (Inl err, \<sigma>')
                  | Inr opts \<Rightarrow> (Inr opts, \<sigma>')))))"

definition EmitCallStmt ::
  "ext \<Rightarrow> callbacks \<Rightarrow> CodeGen \<Rightarrow> ctx \<Rightarrow> nat option \<Rightarrow> expr call_stmt \<Rightarrow> binding option
   \<Rightarrow> Register \<Rightarrow> store \<Rightarrow> Register result" where
  "EmitCallStmt x rc cg c scope call b ret \<sigma> =
     (let c = WithFrame c (Frame (cs_Name call)) in
      case Evaluate rc cg c scope None (cs_Signature call) (cs_Args call) \<sigma> of
        (Inl err, \<sigma>1) \<Rightarrow> (Inl err, \<sigma>1)
      | (Inr args, \<sigma>1) \<Rightarrow>
         (let c = WithArgs c 0 (cs_Args call) in
          case with_options x rc cg c scope call b \<sigma>1 of
            (Inl err, \<sigma>2) \<Rightarrow> (Inl err, \<sigma>2)
          | (Inr opts, \<sigma>2) \<Rightarrow>
             (case (if Breakpoint x call (ReturnType c)
                    then (case breakpoint_command args [] of Inl err \<Rightarrow> Inl err
                          | Inr command \<Rightarrow>
                              if length command \<noteq> 0
                              then Inr (opts @ [breakpointCommand command])
                              else Inr opts)
                    else Inr opts) of
                Inl err \<Rightarrow> (Inl err, \<sigma>2)
              | Inr opts \<Rightarrow>
                 (case Debug cg c \<sigma>2 scope (NIdentExpr (cs_Name call)) ret opts of
                    Some err \<Rightarrow> (Inl err, \<sigma>2)
                  | None \<Rightarrow>
                     (let binding =
                            (case b of None \<Rightarrow> None
                             | Some bb \<Rightarrow>
                                 if cs_BindClause call = Some (bc_Addr (Bind bb)) then b
                                 else None)
                      in EmitIdentExpr x rc cg c scope (cs_Name call)
                           (ie_Ident (cs_Name call)) args opts binding ret \<sigma>2)))))"

text \<open>
  \<^verbatim>\<open>EmitBlock\<close>. \<open>EmitBlock_stmt\<close> is the body of the loop for one statement, which
  writes to the register of the block; \<open>EmitBlock_stmts\<close> is the loop.
\<close>

definition EmitBlock_stmt ::
  "ext \<Rightarrow> callbacks \<Rightarrow> CodeGen \<Rightarrow> ctx \<Rightarrow> nat option \<Rightarrow> binding option \<Rightarrow> expr stmt
   \<Rightarrow> Register \<Rightarrow> store \<Rightarrow> Register result" where
  "EmitBlock_stmt x rc cg c scope b st ret \<sigma> =
     (case st of
        StmtCall call \<Rightarrow>
          SetAsync
            (\<lambda>v \<sigma>.
               case lookupCall x rc cg c scope (ie_Ident (cs_Name call)) \<sigma> of
                 (Inl err, \<sigma>') \<Rightarrow> (Inl err, \<sigma>')
               | (Inr _, \<sigma>') \<Rightarrow>
                  (case EmitCallStmt x rc cg c scope call b (reg_Set v NewRegister) \<sigma>' of
                     (Inl err, \<sigma>'') \<Rightarrow> (Inl err, \<sigma>'')
                   | (Inr ret', \<sigma>'') \<Rightarrow> (Inr (reg_Value ret'), \<sigma>'')))
            ret \<sigma>
      | StmtExpr e \<Rightarrow> rEmitExpr rc cg c scope e [] [] b ret \<sigma>
      | StmtInvalid \<Rightarrow> (Inl (InternalError (NStmt st) ''invalid stmt'' []), \<sigma>))"

fun EmitBlock_stmts ::
  "ext \<Rightarrow> callbacks \<Rightarrow> CodeGen \<Rightarrow> ctx \<Rightarrow> nat option \<Rightarrow> binding option \<Rightarrow> expr stmt list
   \<Rightarrow> Register \<Rightarrow> store \<Rightarrow> Register result" where
  "EmitBlock_stmts x rc cg c scope b [] ret \<sigma> = (Inr ret, \<sigma>)"
| "EmitBlock_stmts x rc cg c scope b (st # stmts) ret \<sigma> =
     (case EmitBlock_stmt x rc cg c scope b st ret \<sigma> of
        (Inl err, \<sigma>') \<Rightarrow> (Inl err, \<sigma>')
      | (Inr ret', \<sigma>') \<Rightarrow> EmitBlock_stmts x rc cg c scope b stmts ret' \<sigma>')"

definition EmitBlock ::
  "ext \<Rightarrow> callbacks \<Rightarrow> CodeGen \<Rightarrow> ctx \<Rightarrow> nat option \<Rightarrow> expr block_stmt option
   \<Rightarrow> binding option \<Rightarrow> Register \<Rightarrow> store \<Rightarrow> Register result" where
  "EmitBlock x rc cg c scope block b ret \<sigma> =
     (case block of
        None \<Rightarrow> (Inr ret, \<sigma>)
      | Some blk \<Rightarrow>
          EmitBlock_stmts x rc cg (WithReturnType c (bs_Kind blk)) scope b (Stmts blk) ret \<sigma>)"

definition EmitFuncLit ::
  "ext \<Rightarrow> callbacks \<Rightarrow> CodeGen \<Rightarrow> ctx \<Rightarrow> nat option \<Rightarrow> expr func_lit \<Rightarrow> binding option
   \<Rightarrow> Register \<Rightarrow> store \<Rightarrow> Register result" where
  "EmitFuncLit x rc cg c scope lit b ret \<sigma> = EmitBlock x rc cg c scope (fl_Body lit) b ret \<sigma>"

definition EmitExpr ::
  "ext \<Rightarrow> callbacks \<Rightarrow> CodeGen \<Rightarrow> ctx \<Rightarrow> nat option \<Rightarrow> expr \<Rightarrow> Value list \<Rightarrow> OptionList
   \<Rightarrow> binding option \<Rightarrow> Register \<Rightarrow> store \<Rightarrow> Register result" where
  "EmitExpr x rc cg c scope e args opts b ret \<sigma> =
     (let c = WithProgramCounter c (NExpr e) in
      case e of
        ExprFuncLit lit \<Rightarrow> EmitFuncLit x rc cg c scope lit b ret \<sigma>
      | ExprBasicLit lit \<Rightarrow> EmitBasicLit rc cg c scope lit ret \<sigma>
      | ExprCallExpr call \<Rightarrow>
          SetAsync
            (\<lambda>v \<sigma>.
               case lookupCall x rc cg c scope (ie_Ident (ce_Name call)) \<sigma> of
                 (Inl err, \<sigma>') \<Rightarrow> (Inl err, \<sigma>')
               | (Inr _, \<sigma>') \<Rightarrow>
                  (case EmitCallExpr x rc cg c scope call (reg_Set v NewRegister) \<sigma>' of
                     (Inl err, \<sigma>'') \<Rightarrow> (Inl err, \<sigma>'')
                   | (Inr ret', \<sigma>'') \<Rightarrow> (Inr (reg_Value ret'), \<sigma>'')))
            ret \<sigma>
      | ExprInvalid \<Rightarrow> (Inl (InternalError (NExpr e) ''invalid expr'' []), \<sigma>))"

text \<open>The entry points at each depth.\<close>

primrec run :: "ext \<Rightarrow> nat \<Rightarrow> callbacks" where
  "run x 0 =
     \<lparr>rEmitExpr = (\<lambda>cg c scope e args opts b ret \<sigma>. (Inl OutOfFuel, \<sigma>)),
      rEmitBlock = (\<lambda>cg c scope block b ret \<sigma>. (Inl OutOfFuel, \<sigma>)),
      rEmitIdentExpr = (\<lambda>cg c scope ie lookup args opts b ret \<sigma>. (Inl OutOfFuel, \<sigma>))\<rparr>"
| "run x (Suc n) =
     \<lparr>rEmitExpr = EmitExpr x (run x n),
      rEmitBlock = EmitBlock x (run x n),
      rEmitIdentExpr = EmitIdentExpr x (run x n)\<rparr>"

subsection \<open>Generate\<close>

datatype Target = Target (Name: string)

text \<open>
  \<^verbatim>\<open>Generate\<close>. \<open>Generate_target\<close> is the body of the loop for the target at index
  \<open>i\<close>, after the test that the target is defined: the debugger, the identifier
  expression, the request. \<open>Generate_loop\<close> is the loop for the targets from index \<open>i\<close>
  on, with the requests collected so far. The result is the request returned; a returned
  error comes with no request.
\<close>

definition Generate_target ::
  "ext \<Rightarrow> callbacks \<Rightarrow> CodeGen \<Rightarrow> ctx \<Rightarrow> module \<Rightarrow> nat \<Rightarrow> Target \<Rightarrow> store \<Rightarrow> request result" where
  "Generate_target x rc cg c mdl i target \<sigma> =
     (case Debug cg c \<sigma> (mod_Scope mdl) (NModule mdl) NewRegister [] of
        Some err \<Rightarrow> (Inl err, \<sigma>)
      | None \<Rightarrow>
         (let ie = IdentExpr \<lparr>Filename = ''target'', Line = i\<rparr>
                     (ie_Ident (NewIdentExpr (Name target)))
                     (ie_Reference (NewIdentExpr (Name target)))
          in case EmitIdentExpr x rc cg c (mod_Scope mdl) ie (ie_Ident ie) [] [] None
                    NewRegister \<sigma> of
               (Inl err, \<sigma>') \<Rightarrow> (Inl err, \<sigma>')
             | (Inr ret, \<sigma>') \<Rightarrow>
                (case Request x (reg_Value ret) of
                   Inl err \<Rightarrow> (Inl err, \<sigma>')
                 | Inr request \<Rightarrow> (Inr request, \<sigma>'))))"

fun Generate_loop ::
  "ext \<Rightarrow> callbacks \<Rightarrow> CodeGen \<Rightarrow> ctx \<Rightarrow> module \<Rightarrow> nat \<Rightarrow> Target list \<Rightarrow> request list
   \<Rightarrow> store \<Rightarrow> request result" where
  "Generate_loop x rc cg c mdl i [] requests \<sigma> = (Inr (Parallel x requests), \<sigma>)"
| "Generate_loop x rc cg c mdl i (target # targets) requests \<sigma> =
     (case deref \<sigma> (mod_Scope mdl) of
        Inl err \<Rightarrow> (Inl err, \<sigma>)
      | Inr sc \<Rightarrow>
         (case Objects sc (Name target) of
            None \<Rightarrow>
              (Inl (Errorf ''target %q is not defined in %s''
                      [FStr (Name target), FStr (mod_Filename mdl)]), \<sigma>)
          | Some _ \<Rightarrow>
             (case Generate_target x rc cg c mdl i target \<sigma> of
                (Inl err, \<sigma>') \<Rightarrow> (Inl err, \<sigma>')
              | (Inr request, \<sigma>') \<Rightarrow>
                  Generate_loop x rc cg c mdl (Suc i) targets (requests @ [request]) \<sigma>')))"

definition Generate ::
  "ext \<Rightarrow> callbacks \<Rightarrow> CodeGen \<Rightarrow> ctx \<Rightarrow> module \<Rightarrow> Target list \<Rightarrow> store \<Rightarrow> request result" where
  "Generate x rc cg c mdl targets \<sigma> = Generate_loop x rc cg c mdl 0 targets [] \<sigma>"

section \<open>An example host and program\<close>

text \<open>
  A host for the examples: the reflected types of the prototype, three callables
  (\<^verbatim>\<open>Scratch\<close> without arguments, \<^verbatim>\<open>Image\<close> with one string, \<^verbatim>\<open>Run\<close> with
  a variadic tail of strings), every other callable of the table with the prototype's
  own signature, and no files. A filesystem is the list of the operations that built it.
\<close>

definition ctxT :: rtype where
  "ctxT = RType ''context.Context'' Interface [''Deadline'', ''Done'', ''Err'', ''Value''] None"

definition clientT :: rtype where
  "clientT = RType ''*client.Client'' Ptr [] None"

definition valueT :: rtype where
  "valueT = RType ''codegen.Value'' Interface
              [''Kind'', ''String'', ''Option'', ''Filesystem'', ''Request'', ''Reflect''] None"

definition emptyT :: rtype where
  "emptyT = RType ''interface {}'' Interface [] None"

definition optionT :: rtype where
  "optionT = RType ''codegen.Option'' Slice [] (Some emptyT)"

definition errorT :: rtype where
  "errorT = RType ''error'' Interface [''Error''] None"

definition stringT :: rtype where
  "stringT = RType ''string'' Basic [] None"

definition builtin_type :: "rtype list \<Rightarrow> rtype option \<Rightarrow> functype" where
  "builtin_type params tail =
     \<lparr>ft_Params = [ctxT, clientT, valueT, optionT] @ params, ft_Variadic = tail,
      ft_Out = [valueT, errorT]\<rparr>"

definition host_Method_Call :: "callable \<Rightarrow> functype option" where
  "host_Method_Call callable =
     (if callable = ''Image'' then Some (builtin_type [stringT] None)
      else if callable = ''Run'' then Some (builtin_type [] (Some stringT))
      else Some (builtin_type [] None))"

fun reflected_strings :: "rvalue list \<Rightarrow> string list" where
  "reflected_strings [] = []"
| "reflected_strings (RV_Reflected t (StringValue s) # rest) = s # reflected_strings rest"
| "reflected_strings (_ # rest) = reflected_strings rest"

fun incoming_ops :: "rvalue list \<Rightarrow> string list" where
  "incoming_ops (_ # _ # RV_Value (FilesystemValue (Filesystem ops)) # _) = ops"
| "incoming_ops _ = []"

fun option_names :: "rvalue list \<Rightarrow> string list" where
  "option_names (_ # _ # _ # RV_Option os # _) =
     concat (map (\<lambda>item. case item of HostOption n \<Rightarrow> [n]
                          | SolveOptionItem (SolveOption n) \<Rightarrow> [n] | _ \<Rightarrow> []) os)"
| "option_names _ = []"

definition host_Invoke :: "callable \<Rightarrow> rvalue list \<Rightarrow> Value option \<times> error option" where
  "host_Invoke callable ins =
     (if callable = ''Scratch'' then (Some (FilesystemValue (Filesystem [''scratch''])), None)
      else if callable = ''Image'' then
        (if reflected_strings ins = [[]]
         then (None, Some (HostError ''invalid reference format''))
         else (Some (FilesystemValue (Filesystem (''image'' # reflected_strings ins))), None))
      else if callable = ''Run'' then
        (if reflected_strings ins = [] then (None, Some (HostError ''no command''))
         else (Some (FilesystemValue
                 (Filesystem (incoming_ops ins @ [''run''] @ reflected_strings ins
                              @ option_names ins))), None))
      else (None, None))"

text \<open>
  The file \<^verbatim>\<open>./m.hlb\<close> holds \<^verbatim>\<open>fs foo() { scratch; }\<close>: the semantic pass of
  the example host gives the imported module its root scope, allocated at the first free
  address, with the built-in \<^verbatim>\<open>scratch\<close> and the function \<^verbatim>\<open>foo\<close>.
\<close>

definition decl_object :: "kind \<Rightarrow> string \<Rightarrow> node \<Rightarrow> object" where
  "decl_object k name n = \<lparr>Kind = k, obj_Ident = Ident name, Node = n, Data = DataNil\<rparr>"

definition call_stmt :: "string \<Rightarrow> expr list \<Rightarrow> expr stmt" where
  "call_stmt name args =
     StmtCall (CallStmt (NewIdentExpr name) (map (\<lambda>_. KString) args) args None None)"

definition string_expr :: "string \<Rightarrow> expr" where
  "string_expr s = ExprBasicLit (Str (StringLit [SF_Text s]))"

definition fs_decl :: "string \<Rightarrow> expr stmt list \<Rightarrow> nat \<Rightarrow> func_decl" where
  "fs_decl name stmts scope =
     FuncDecl (Ident name) [] (Some (BlockStmt KFilesystem stmts)) (Some scope)"

definition imported_module :: "nat \<Rightarrow> module \<Rightarrow> module" where
  "imported_module base m = Module (mod_Filename m) (Directory m) (Some base)"

definition imported_scope :: "nat \<Rightarrow> module \<Rightarrow> scope" where
  "imported_scope base m =
     \<lparr>sc_Node = NModule (imported_module base m), Parent = None,
      Objects = [''scratch'' \<mapsto> decl_object KFilesystem ''scratch''
                                 (NBuiltinDecl (BuiltinDecl ''scratch'' [KFilesystem])),
                 ''foo'' \<mapsto> decl_object KFilesystem ''foo''
                             (NFuncDecl (fs_decl ''foo'' [call_stmt ''scratch'' []] base))]\<rparr>"

definition example_host :: ext where
  "example_host =
     \<lparr>PrototypeIn = [ctxT, clientT, valueT, optionT], PrototypeOut = [valueT, errorT],
      Prototype_Call =
        Some \<lparr>ft_Params = [RType ''codegen.Prototype'' Struct [''Call''] None,
                           ctxT, clientT, valueT, optionT],
              ft_Variadic = None, ft_Out = [valueT, errorT]\<rparr>,
      Method_Call = host_Method_Call, Invoke = host_Invoke,
      Reflect = (\<lambda>v t. if t = stringT \<and> Value_Kind v \<noteq> KString then Inl ErrBadCast
                       else Inr (RV_Reflected t v)),
      ErrorText = (\<lambda>e. case e of Errorf format args \<Rightarrow> format | HostError msg \<Rightarrow> msg
                        | _ \<Rightarrow> ''error''),
      Request = (\<lambda>v. case v of FilesystemValue fs \<Rightarrow> Inr (FilesystemRequest fs)
                      | _ \<Rightarrow> Inl ErrBadCast),
      Parallel = ParallelRequest, Breakpoint = (\<lambda>c k. False),
      TargetBinding = (\<lambda>bc n. None),
      Open = (\<lambda>d n. if d = Directory_at ''.'' \<and> n = ''./m.hlb''
                      then Inr (SourceFile ''fs foo() { scratch; }'')
                      else Inl (HostError ''not exist'')),
      IsNotExist = (\<lambda>e. e = HostError ''not exist''),
      ModuleFilename = ''module.hlb'',
      Parse = (\<lambda>c f. Inr (Module ''m.hlb'' (Directory_at []) None)),
      SemanticPass = (\<lambda>base m. (None, imported_module base m, [imported_scope base m])),
      Lint = (\<lambda>c p. p), Check = (\<lambda>p. (None, p)),
      CheckReferences = (\<lambda>\<sigma> m n. None)\<rparr>"

definition example_cg :: CodeGen where
  "example_cg =
     fst (New (Client ''buildkit'') (\<lambda>c i fs. Inl (HostError ''no resolver''))
            [WithExtraSolveOpts [SolveOption ''a''], WithExtraSolveOpts [SolveOption ''b'']])"

definition example_ctx :: ctx where
  "example_ctx =
     \<lparr>ProgramCounter = NNil, ReturnType = KNone, Frames = [], Args = [], ctx_Binding = None\<rparr>"

definition param_scope :: "Value \<Rightarrow> store" where
  "param_scope v =
     [\<lparr>sc_Node = NNil, Parent = None,
       Objects = [''p'' \<mapsto> \<lparr>Kind = KOption, obj_Ident = Ident ''p'',
                            Node = NField (ParamField None KOption (Ident ''p'')),
                            Data = DataValue v\<rparr>]\<rparr>]"

text \<open>
  The module \<^verbatim>\<open>main.hlb\<close>, with its root scope at address 0:
  \<^verbatim>\<open>string x() { "world"; }\<close>, \<^verbatim>\<open>fs default() { scratch; }\<close>,
  \<^verbatim>\<open>fs a() { image "alpine"; run "echo hi"; }\<close>, \<^verbatim>\<open>fs broken() { image ""; }\<close>,
  \<^verbatim>\<open>import m "./m.hlb"\<close>, \<^verbatim>\<open>import missing "./nope.hlb"\<close> and
  \<^verbatim>\<open>fs viaimport() { m.foo; }\<close>.
\<close>

definition main_mod :: module where
  "main_mod = Module ''main.hlb'' (Directory_at ''.'') (Some 0)"

definition x_decl :: func_decl where
  "x_decl = FuncDecl (Ident ''x'') [] (Some (BlockStmt KString [StmtExpr (string_expr ''world'')]))
              (Some 0)"

definition a_block :: "expr block_stmt" where
  "a_block = BlockStmt KFilesystem
               [call_stmt ''image'' [string_expr ''alpine''],
                call_stmt ''run'' [string_expr ''echo hi'']]"

definition m_import :: import_decl where
  "m_import = ImportDecl (Ident ''m'') (string_expr ''./m.hlb'') None"

definition missing_import :: import_decl where
  "missing_import = ImportDecl (Ident ''missing'') (string_expr ''./nope.hlb'') None"

definition m_foo :: ident_expr where
  "m_foo = IdentExpr \<lparr>Filename = ''main.hlb'', Line = 7\<rparr> (Ident ''m'') (Some (Ident ''foo''))"

definition main_objects :: "string \<rightharpoonup> object" where
  "main_objects =
     [''scratch'' \<mapsto> decl_object KFilesystem ''scratch''
                      (NBuiltinDecl (BuiltinDecl ''scratch'' [KFilesystem])),
      ''image'' \<mapsto> decl_object KFilesystem ''image''
                    (NBuiltinDecl (BuiltinDecl ''image'' [KFilesystem])),
      ''run'' \<mapsto> decl_object KFilesystem ''run''
                  (NBuiltinDecl (BuiltinDecl ''run'' [KFilesystem])),
      ''x'' \<mapsto> decl_object KString ''x'' (NFuncDecl x_decl),
      ''default'' \<mapsto> decl_object KFilesystem ''default''
                      (NFuncDecl (fs_decl ''default'' [call_stmt ''scratch'' []] 0)),
      ''a'' \<mapsto> decl_object KFilesystem ''a''
                (NFuncDecl (FuncDecl (Ident ''a'') [] (Some a_block) (Some 0))),
      ''broken'' \<mapsto> decl_object KFilesystem ''broken''
                     (NFuncDecl (fs_decl ''broken'' [call_stmt ''image'' [string_expr []]] 0)),
      ''m'' \<mapsto> decl_object KNone ''m'' (NImportDecl m_import),
      ''missing'' \<mapsto> decl_object KNone ''missing'' (NImportDecl missing_import),
      ''viaimport'' \<mapsto> decl_object KFilesystem ''viaimport''
                        (NFuncDecl (fs_decl ''viaimport''
                           [StmtCall (CallStmt m_foo [] [] None None)] 0))]"

definition main_store :: store where
  "main_store = [\<lparr>sc_Node = NModule main_mod, Parent = None, Objects = main_objects\<rparr>]"

definition builtin_scope :: store where
  "builtin_scope =
     [\<lparr>sc_Node = NNil, Parent = None,
       Objects = [''run'' \<mapsto> \<lparr>Kind = KFilesystem, obj_Ident = Ident ''run'',
                              Node = NBuiltinDecl (BuiltinDecl ''run'' [KFilesystem]),
                              Data = DataNil\<rparr>,
                  ''image'' \<mapsto> \<lparr>Kind = KFilesystem, obj_Ident = Ident ''image'',
                                Node = NBuiltinDecl (BuiltinDecl ''image'' [KFilesystem]),
                                Data = DataNil\<rparr>]\<rparr>]"







section \<open>The claims in the words of the specification\<close>










text \<open>
  What the import evaluator owes for one directory and file name: a file that does not exist
  gives the \<open>ImportPathNotExist\<close> diagnostic on the deprecated path, else on the type of a
  function literal, else on the import expression; a file that opens, parses and passes the
  checker gives the checked module; and a module is returned only in that way.
\<close>

definition import_outcome ::
  "ext \<Rightarrow> ctx \<Rightarrow> import_decl \<Rightarrow> store \<Rightarrow> directory \<Rightarrow> string \<Rightarrow> (module \<times> string) result \<Rightarrow> bool" where
  "import_outcome x c imp \<sigma> dir filename r \<longleftrightarrow>
     (\<forall>err. Open x dir filename = Inl err \<and> IsNotExist x err \<longrightarrow>
        r = (Inl (ImportPathNotExist err
                    (case DeprecatedPath imp of Some p \<Rightarrow> NStringLit p
                     | None \<Rightarrow> (case id_Expr imp of ExprFuncLit lit \<Rightarrow> NType (fl_Type lit)
                                 | _ \<Rightarrow> NExpr (id_Expr imp)))
                    filename), \<sigma>)) \<and>
     (\<forall>f parsed sem imod scopes.
        Open x dir filename = Inr f \<and> Parse x c f = Inr parsed \<and>
        SemanticPass x (length \<sigma>) (Module (mod_Filename parsed) dir (mod_Scope parsed))
          = (None, sem) \<and>
        Check x (Lint x c sem) = (None, imod, scopes) \<longrightarrow>
        r = (Inr (imod, filename), \<sigma> @ scopes)) \<and>
     (\<forall>imod name \<sigma>'.
        r = (Inr (imod, name), \<sigma>') \<longrightarrow>
        name = filename \<and>
        (\<exists>f parsed sem scopes.
           Open x dir filename = Inr f \<and> Parse x c f = Inr parsed \<and>
           SemanticPass x (length \<sigma>) (Module (mod_Filename parsed) dir (mod_Scope parsed))
             = (None, sem) \<and>
           Check x (Lint x c sem) = (None, imod, scopes) \<and> \<sigma>' = \<sigma> @ scopes))"

text \<open>
  A call of a host callable. \<open>coerced x t args rvs\<close>: the method type \<open>t\<close> has at least the
  four inputs of the prototype, there is an argument for each of its other fixed
  parameters, and \<open>rvs\<close> is these arguments coerced to the parameter types, followed, for a
  variadic \<open>t\<close>, by the remaining arguments coerced to the element type of the variadic
  tail (none for a \<open>t\<close> that is not variadic). \<open>call_outcome\<close>: what
  \<^verbatim>\<open>EmitBuiltinDecl\<close> makes of the two outputs of the call.
\<close>

definition coerced :: "ext \<Rightarrow> functype \<Rightarrow> Value list \<Rightarrow> rvalue list \<Rightarrow> bool" where
  "coerced x t args rvs \<longleftrightarrow>
     4 \<le> length (ft_Params t) \<and> length (ft_Params t) - 4 \<le> length args \<and>
     (\<exists>regular tail. rvs = regular @ tail \<and>
        list_all2 (\<lambda>(arg, p) rv. Reflect x arg p = Inr rv)
          (zip (take (length (ft_Params t) - 4) args) (drop 4 (ft_Params t))) regular \<and>
        (case ft_Variadic t of None \<Rightarrow> tail = []
         | Some param \<Rightarrow> list_all2 (\<lambda>arg rv. Reflect x arg param = Inr rv)
                          (drop (length (ft_Params t) - 4) args) tail))"

definition call_outcome :: "ctx \<Rightarrow> Value option \<times> error option \<Rightarrow> error + Value" where
  "call_outcome c outs =
     (case outs of
        (_, Some err) \<Rightarrow> Inl (BacktraceError (Frames c) err)
      | (None, None) \<Rightarrow> Inl (Panic ''interface conversion: interface is nil, not codegen.Value'')
      | (Some v', None) \<Rightarrow> Inr v')"

section \<open>Lemmas on the evaluation of arguments and literals\<close>

lemma reflect_args_all2:
  "list_all2 (\<lambda>(arg, p) rv. Reflect x arg p = Inr rv) ps rvs \<Longrightarrow> reflect_args x ps = Inr rvs"
  by (induction ps rvs rule: list_all2_induct) auto

lemma EmitExpr_string_expr:
  "EmitExpr x rc cg c scope (string_expr s) args opts b ret \<sigma>
     = (Inr (Register (StringValue s)), \<sigma>)"
  by (simp add: EmitExpr_def EmitBasicLit_def EmitStringLit_def string_expr_def reg_Set_def)

section \<open>Parameters of option kind\<close>

text \<open>
  Claim C3. When \<^verbatim>\<open>EmitIdentExpr\<close> resolves the identifier to a function parameter
  (an object whose node is a \<^verbatim>\<open>Field\<close>, holding the bound value \<open>val\<close>): if the value
  of the return register and \<open>val\<close> both have kind \<^verbatim>\<open>Option\<close>, the register is set to
  the option list of the register followed by the option list of the parameter; in every
  other case the register is set to \<open>val\<close>. The store of scopes is not changed.
\<close>

theorem EmitIdentExpr_Field:
  assumes "Lookup \<sigma> scope (Text lookup) = Inr (Some (a, obj))"
    and "Node obj = NField n"
    and "Data obj = DataValue val"
  shows "(Value_Kind (reg_Value ret) = KOption \<and> Value_Kind val = KOption \<longrightarrow>
           (\<exists>retOpts valOpts.
              Value_Option (reg_Value ret) = Inr retOpts \<and> Value_Option val = Inr valOpts \<and>
              EmitIdentExpr x rc cg c scope ie lookup args opts b ret \<sigma>
                = (Inr (Register (OptionValue (retOpts @ valOpts))), \<sigma>))) \<and>
         (\<not> (Value_Kind (reg_Value ret) = KOption \<and> Value_Kind val = KOption) \<longrightarrow>
            EmitIdentExpr x rc cg c scope ie lookup args opts b ret \<sigma>
              = (Inr (Register val), \<sigma>))"
proof -
  have k: "\<And>v. Value_Kind v = KOption \<Longrightarrow> \<exists>os. v = OptionValue os"
    by (case_tac v) simp_all
  show ?thesis
    using assms
    by (auto simp: EmitIdentExpr_def NewValue_def Value_Option_def reg_Set_def Let_def
             dest!: k)
qed

theorem EmitIdentExpr_Field_witness:
  "EmitIdentExpr example_host (run example_host 0) example_cg example_ctx (Some 0)
      (NewIdentExpr ''p'') (Ident ''p'') [] [] None (Register (OptionValue [HostOption ''b'']))
      (param_scope (OptionValue [HostOption ''a'']))
    = (Inr (Register (OptionValue [HostOption ''b'', HostOption ''a''])),
       param_scope (OptionValue [HostOption ''a'']))
   \<and> EmitIdentExpr example_host (run example_host 0) example_cg example_ctx (Some 0)
      (NewIdentExpr ''p'') (Ident ''p'') [] [] None (Register (StringValue ''s''))
      (param_scope (OptionValue [HostOption ''a'']))
    = (Inr (Register (OptionValue [HostOption ''a''])),
       param_scope (OptionValue [HostOption ''a'']))"
proof -
  let ?val = "OptionValue [HostOption ''a'']"
  let ?n = "ParamField None KOption (Ident ''p'')"
  let ?obj = "\<lparr>Kind = KOption, obj_Ident = Ident ''p'', Node = NField ?n,
               Data = DataValue ?val\<rparr>"
  have l: "Lookup (param_scope ?val) (Some 0) (Text (Ident ''p'')) = Inr (Some (0, ?obj))"
    by (simp add: Lookup_def param_scope_def deref_def)
  show ?thesis
    using EmitIdentExpr_Field [OF l, of ?n ?val "Register (OptionValue [HostOption ''b''])"
        example_host "run example_host 0" example_cg example_ctx "NewIdentExpr ''p''"
        "[]" "[]" None]
      EmitIdentExpr_Field [OF l, of ?n ?val "Register (StringValue ''s'')"
        example_host "run example_host 0" example_cg example_ctx "NewIdentExpr ''p''"
        "[]" "[]" None]
    by (simp add: Value_Option_def)
qed

section \<open>Extra solve options\<close>

lemma New_extras: "apply_options (map WithExtraSolveOpts extras) cg = (cg\<lparr>extraSolveOpts := extraSolveOpts cg @ concat extras\<rparr>, None)"
  by (induction extras arbitrary: cg) (simp_all add: WithExtraSolveOpts_def)

lemma builtin_ins_prefix:
  "builtin_ins x c cl bd t args opts v = Inr ins \<Longrightarrow>
     \<exists>rest. ins = [RV_ctx c, RV_client cl, RV_Value v, RV_Option opts] @ rest"
  by (auto simp: builtin_ins_def Let_def split: if_splits sum.splits option.splits)

lemma builtin_ins_coerced:
  assumes proto: "length (PrototypeIn x) = 4"
    and co: "coerced x t args rvs"
  shows "builtin_ins x c cl bd t args opts v
           = Inr ([RV_ctx c, RV_client cl, RV_Value v, RV_Option opts] @ rvs) \<and>
         length (ft_Params t) \<le> 4 + length rvs \<and>
         (ft_Variadic t = None \<longrightarrow> 4 + length rvs = length (ft_Params t))"
proof -
  define nf where "nf = length (ft_Params t) - 4"
  from co obtain regular tail where
    params: "4 \<le> length (ft_Params t)" and nargs: "nf \<le> length args"
    and rvs: "rvs = regular @ tail"
    and regular: "list_all2 (\<lambda>(arg, p) rv. Reflect x arg p = Inr rv)
                    (zip (take nf args) (drop 4 (ft_Params t))) regular"
    and tail: "case ft_Variadic t of None \<Rightarrow> tail = []
               | Some param \<Rightarrow> list_all2 (\<lambda>arg rv. Reflect x arg param = Inr rv)
                                (drop nf args) tail"
    unfolding coerced_def nf_def by blast
  have lp: "length (ft_Params t) = nf + 4"
    using params by (simp add: nf_def)
  have r1: "reflect_args x (zip (take nf args) (drop 4 (ft_Params t))) = Inr regular"
    using regular by (rule reflect_args_all2)
  have r2: "ft_Variadic t = Some param \<Longrightarrow>
              reflect_args x (map (\<lambda>arg. (arg, param)) (drop nf args)) = Inr tail" for param
  proof -
    assume "ft_Variadic t = Some param"
    with tail have "list_all2 (\<lambda>(arg, p) rv. Reflect x arg p = Inr rv)
          (map (\<lambda>arg. (arg, param)) (drop nf args)) tail"
      by (simp add: list_all2_map1)
    then show ?thesis by (rule reflect_args_all2)
  qed
  have bi: "builtin_ins x c cl bd t args opts v
              = Inr ([RV_ctx c, RV_client cl, RV_Value v, RV_Option opts] @ rvs)"
    using nargs tail by (auto simp: builtin_ins_def Let_def proto lp r1 r2 rvs split: option.splits)
  have "length (zip (take nf args) (drop 4 (ft_Params t))) = nf"
    using nargs lp by simp
  moreover have "length (zip (take nf args) (drop 4 (ft_Params t))) = length regular"
    using regular by (rule list_all2_lengthD)
  ultimately have lr: "length regular = nf"
    by simp
  have len: "length (ft_Params t) \<le> 4 + length rvs"
    using lr lp by (simp add: rvs)
  have len2: "ft_Variadic t = None \<longrightarrow> 4 + length rvs = length (ft_Params t)"
    using lr lp tail by (auto simp: rvs)
  show ?thesis
    using bi len len2 by blast
qed

lemma EmitBuiltinDecl_coerced:
  assumes callable: "(if ReturnType c \<noteq> KNone then Callables_at (ReturnType c) (bd_Name bd)
                      else first_callable (Kinds bd) (bd_Name bd)) = Some callable"
    and t: "Method_Call x callable = Some t"
    and proto: "length (PrototypeIn x) = 4"
    and co: "coerced x t args rvs"
  shows "EmitBuiltinDecl x cg c scope bd args opts b v =
           call_outcome c
             (Invoke x callable
                ([RV_ctx (case b of None \<Rightarrow> c | Some bb \<Rightarrow> WithBinding c bb),
                  RV_client (cln cg), RV_Value v,
                  RV_Option (opts @ map SolveOptionItem (extraSolveOpts cg))] @ rvs))"
proof -
  let ?c = "case b of None \<Rightarrow> c | Some bb \<Rightarrow> WithBinding c bb"
  let ?opts = "opts @ map SolveOptionItem (extraSolveOpts cg)"
  let ?ins = "[RV_ctx ?c, RV_client (cln cg), RV_Value v, RV_Option ?opts] @ rvs"
  from builtin_ins_coerced [OF proto co, of ?c "cln cg" bd ?opts v]
  have bi: "builtin_ins x ?c (cln cg) bd t args ?opts v = Inr ?ins"
    and len: "length (ft_Params t) \<le> 4 + length rvs"
    and len2: "ft_Variadic t = None \<longrightarrow> 4 + length rvs = length (ft_Params t)"
    by blast+
  have fr: "Frames ?c = Frames c"
    by (simp add: WithBinding_def split: option.splits)
  have a: "\<not> length ?ins < length (ft_Params t)"
    using len by simp
  have b: "\<not> (\<not> IsVariadic t \<and> length (ft_Params t) < length ?ins)"
    using len2 by (auto simp: IsVariadic_def)
  have "EmitBuiltinDecl x cg c scope bd args opts b v =
          (case Invoke x callable ?ins of
             (_, Some err) \<Rightarrow> Inl (WithBacktraceError ?c err)
           | (None, None) \<Rightarrow>
               Inl (Panic ''interface conversion: interface is nil, not codegen.Value'')
           | (Some v', None) \<Rightarrow> Inr v')"
    unfolding EmitBuiltinDecl_def callable option.case Let_def t bi sum.case
    using a b by (simp only: if_False)
  then show ?thesis
    by (simp add: call_outcome_def WithBacktraceError_def fr
          split: prod.splits option.splits)
qed

text \<open>
  Claim C10. The extra solve options configured with \<^verbatim>\<open>WithExtraSolveOpts\<close> are kept
  in configuration order. When \<^verbatim>\<open>EmitBuiltinDecl\<close> finds the callable of the built-in
  and the arguments coerce to its parameters, its result is the outcome of one call of
  that callable, on the context, the client, the incoming value, the option list made of
  the options of the call followed by every extra solve option of the code generator, and
  the coerced arguments; the host's callable is arbitrary, so this fixes the inputs it is
  given. Whatever the built-in and its arguments, the result depends on the callables only
  through calls whose option list (the input at index 3) is that list. A call statement
  with no \<^verbatim>\<open>with\<close> clause (and no breakpoint) that resolves to a built-in calls the
  callable with the extra solve options alone.
\<close>

theorem extra_solve_opts_passed:
  "extraSolveOpts (fst (New cl r (map WithExtraSolveOpts extras))) = concat extras \<and>
   (\<forall>callable t rvs.
      (if ReturnType c \<noteq> KNone then Callables_at (ReturnType c) (bd_Name bd)
       else first_callable (Kinds bd) (bd_Name bd)) = Some callable \<and>
      Method_Call x callable = Some t \<and> length (PrototypeIn x) = 4 \<and> coerced x t args rvs \<longrightarrow>
      EmitBuiltinDecl x cg c scope bd args opts b v =
        call_outcome c
          (Invoke x callable
             ([RV_ctx (case b of None \<Rightarrow> c | Some bb \<Rightarrow> WithBinding c bb),
               RV_client (cln cg), RV_Value v,
               RV_Option (opts @ map SolveOptionItem (extraSolveOpts cg))] @ rvs))) \<and>
   (\<forall>f. (\<forall>callable ins. 4 \<le> length ins \<and>
                 ins ! 3 = RV_Option (opts @ map SolveOptionItem (extraSolveOpts cg)) \<longrightarrow>
                 f callable ins = Invoke x callable ins) \<longrightarrow>
        EmitBuiltinDecl (x\<lparr>Invoke := f\<rparr>) cg c scope bd args opts b v
          = EmitBuiltinDecl x cg c scope bd args opts b v) \<and>
   (\<forall>call vals \<sigma>1 a obj callable t rvs.
      WithClause call = None \<and> \<not> Breakpoint x call (ReturnType c) \<and>
      Evaluate rc cg (WithFrame c (Frame (cs_Name call))) scope None (cs_Signature call)
        (cs_Args call) \<sigma> = (Inr vals, \<sigma>1) \<and>
      Debug cg (WithArgs (WithFrame c (Frame (cs_Name call))) 0 (cs_Args call)) \<sigma>1 scope
        (NIdentExpr (cs_Name call)) ret [] = None \<and>
      Lookup \<sigma>1 scope (Text (ie_Ident (cs_Name call))) = Inr (Some (a, obj)) \<and>
      Node obj = NBuiltinDecl bd \<and>
      (if ReturnType c \<noteq> KNone then Callables_at (ReturnType c) (bd_Name bd)
       else first_callable (Kinds bd) (bd_Name bd)) = Some callable \<and>
      Method_Call x callable = Some t \<and> length (PrototypeIn x) = 4 \<and> coerced x t vals rvs \<longrightarrow>
      EmitCallStmt x rc cg c scope call None ret \<sigma> =
        (case call_outcome (WithFrame c (Frame (cs_Name call)))
                (Invoke x callable
                   ([RV_ctx (WithProgramCounter
                               (WithArgs (WithFrame c (Frame (cs_Name call))) 0 (cs_Args call))
                               (NIdentExpr (cs_Name call))),
                     RV_client (cln cg), RV_Value (reg_Value ret),
                     RV_Option (map SolveOptionItem (extraSolveOpts cg))] @ rvs)) of
           Inl err \<Rightarrow> (Inl err, \<sigma>1)
         | Inr v' \<Rightarrow> (Inr (Register v'), \<sigma>1)))"
proof (intro conjI allI impI)
  show "extraSolveOpts (fst (New cl r (map WithExtraSolveOpts extras))) = concat extras"
    by (simp add: New_def New_extras)
next
  fix callable t rvs
  assume "(if ReturnType c \<noteq> KNone then Callables_at (ReturnType c) (bd_Name bd)
       else first_callable (Kinds bd) (bd_Name bd)) = Some callable \<and>
      Method_Call x callable = Some t \<and> length (PrototypeIn x) = 4 \<and> coerced x t args rvs"
  then show "EmitBuiltinDecl x cg c scope bd args opts b v =
        call_outcome c
          (Invoke x callable
             ([RV_ctx (case b of None \<Rightarrow> c | Some bb \<Rightarrow> WithBinding c bb),
               RV_client (cln cg), RV_Value v,
               RV_Option (opts @ map SolveOptionItem (extraSolveOpts cg))] @ rvs))"
    using EmitBuiltinDecl_coerced by blast
next
  fix f
  assume f: "\<forall>callable ins. 4 \<le> length ins \<and>
                 ins ! 3 = RV_Option (opts @ map SolveOptionItem (extraSolveOpts cg)) \<longrightarrow>
                 f callable ins = Invoke x callable ins"
  have ins_same: "\<And>c' t. builtin_ins (x\<lparr>Invoke := f\<rparr>) c' (cln cg) bd t args
           (opts @ map SolveOptionItem (extraSolveOpts cg)) v
        = builtin_ins x c' (cln cg) bd t args (opts @ map SolveOptionItem (extraSolveOpts cg)) v"
  proof -
    fix c' t
    have ra: "reflect_args (x\<lparr>Invoke := f\<rparr>) ps = reflect_args x ps" for ps
      by (induction ps) (auto split: sum.splits)
    show "builtin_ins (x\<lparr>Invoke := f\<rparr>) c' (cln cg) bd t args
           (opts @ map SolveOptionItem (extraSolveOpts cg)) v
        = builtin_ins x c' (cln cg) bd t args (opts @ map SolveOptionItem (extraSolveOpts cg)) v"
      by (simp add: builtin_ins_def ra Let_def cong: if_cong sum.case_cong option.case_cong)
  qed
  have call_same: "\<And>c' t callable ins. builtin_ins x c' (cln cg) bd t args
           (opts @ map SolveOptionItem (extraSolveOpts cg)) v = Inr ins \<Longrightarrow> f callable ins = Invoke x callable ins"
  proof -
    fix c' t callable ins
    assume "builtin_ins x c' (cln cg) bd t args
           (opts @ map SolveOptionItem (extraSolveOpts cg)) v = Inr ins"
    from builtin_ins_prefix [OF this] obtain rest where
      "ins = [RV_ctx c', RV_client (cln cg), RV_Value v, RV_Option (opts @ map SolveOptionItem (extraSolveOpts cg))] @ rest"
      by blast
    then have "4 \<le> length ins \<and> ins ! 3 = RV_Option (opts @ map SolveOptionItem (extraSolveOpts cg))"
      by simp
    with f show "f callable ins = Invoke x callable ins" by blast
  qed
  show "EmitBuiltinDecl (x\<lparr>Invoke := f\<rparr>) cg c scope bd args opts b v
          = EmitBuiltinDecl x cg c scope bd args opts b v"
    by (auto simp: EmitBuiltinDecl_def Let_def ins_same call_same split: option.splits sum.splits)
next
  fix call :: "expr call_stmt" and vals \<sigma>1 a obj callable t rvs
  let ?c1 = "WithFrame c (Frame (cs_Name call))"
  let ?c2 = "WithArgs ?c1 0 (cs_Args call)"
  let ?c3 = "WithProgramCounter ?c2 (NIdentExpr (cs_Name call))"
  assume h: "WithClause call = None \<and> \<not> Breakpoint x call (ReturnType c) \<and>
      Evaluate rc cg ?c1 scope None (cs_Signature call) (cs_Args call) \<sigma> = (Inr vals, \<sigma>1) \<and>
      Debug cg ?c2 \<sigma>1 scope (NIdentExpr (cs_Name call)) ret [] = None \<and>
      Lookup \<sigma>1 scope (Text (ie_Ident (cs_Name call))) = Inr (Some (a, obj)) \<and>
      Node obj = NBuiltinDecl bd \<and>
      (if ReturnType c \<noteq> KNone then Callables_at (ReturnType c) (bd_Name bd)
       else first_callable (Kinds bd) (bd_Name bd)) = Some callable \<and>
      Method_Call x callable = Some t \<and> length (PrototypeIn x) = 4 \<and> coerced x t vals rvs"
  have wa: "ReturnType (WithArgs d i es) = ReturnType d \<and> Frames (WithArgs d i es) = Frames d"
    for d i es
    by (induction es arbitrary: d i) (simp_all add: WithArg_def)
  have rt2: "ReturnType ?c2 = ReturnType c"
    by (simp add: wa WithFrame_def)
  have rt3: "ReturnType ?c3 = ReturnType c"
    by (simp add: WithProgramCounter_def rt2)
  have fr3: "Frames ?c3 = Frames ?c1"
    by (simp add: WithProgramCounter_def wa)
  have cl: "(if ReturnType ?c3 \<noteq> KNone then Callables_at (ReturnType ?c3) (bd_Name bd)
       else first_callable (Kinds bd) (bd_Name bd)) = Some callable"
    using h by (simp only: rt3)
  have ebd: "EmitBuiltinDecl x cg ?c3 scope bd vals [] None v =
        call_outcome ?c3
          (Invoke x callable
             ([RV_ctx ?c3, RV_client (cln cg), RV_Value v,
               RV_Option (map SolveOptionItem (extraSolveOpts cg))] @ rvs))" for v
    using EmitBuiltinDecl_coerced [OF cl, of x t vals rvs cg scope "[]" None v] h by simp
  have co: "call_outcome ?c3 = call_outcome ?c1"
    unfolding call_outcome_def fr3 ..
  have wo: "with_options x rc cg ?c2 scope call None \<sigma>1 = (Inr [], \<sigma>1)"
    using h by (simp add: with_options_def)
  have eie: "EmitIdentExpr x rc cg ?c2 scope (cs_Name call) (ie_Ident (cs_Name call)) vals []
               None ret \<sigma>1
      = SetAsync (\<lambda>v \<sigma>. (EmitBuiltinDecl x cg ?c3 scope bd vals [] None v, \<sigma>)) ret \<sigma>1"
    using h by (simp add: EmitIdentExpr_def Let_def)
  have "EmitCallStmt x rc cg c scope call None ret \<sigma>
      = EmitIdentExpr x rc cg ?c2 scope (cs_Name call) (ie_Ident (cs_Name call)) vals []
               None ret \<sigma>1"
    using h by (simp add: EmitCallStmt_def Let_def wo rt2)
  then show "EmitCallStmt x rc cg c scope call None ret \<sigma> =
        (case call_outcome ?c1
                (Invoke x callable
                   ([RV_ctx ?c3, RV_client (cln cg), RV_Value (reg_Value ret),
                     RV_Option (map SolveOptionItem (extraSolveOpts cg))] @ rvs)) of
           Inl err \<Rightarrow> (Inl err, \<sigma>1)
         | Inr v' \<Rightarrow> (Inr (Register v'), \<sigma>1))"
    by (simp add: eie ebd co SetAsync_def split: sum.splits)
qed

theorem extra_solve_opts_passed_witness:
  "extraSolveOpts example_cg = [SolveOption ''a'', SolveOption ''b''] \<and>
   EmitBuiltinDecl example_host example_cg (WithReturnType example_ctx KFilesystem) (Some 0)
       (BuiltinDecl ''run'' [KFilesystem]) [StringValue ''echo''] [HostOption ''env''] None
       (FilesystemValue (Filesystem [''scratch'']))
     = Inr (FilesystemValue (Filesystem [''scratch'', ''run'', ''echo'', ''env'', ''a'', ''b''])) \<and>
   EmitBuiltinDecl
       (example_host\<lparr>Invoke := (\<lambda>callable ins.
          if 4 \<le> length ins \<and>
             ins ! 3 = RV_Option [HostOption ''env'', SolveOptionItem (SolveOption ''a''),
                                  SolveOptionItem (SolveOption ''b'')]
          then host_Invoke callable ins else (None, Some (HostError ''other options'')))\<rparr>)
       example_cg (WithReturnType example_ctx KFilesystem) (Some 0)
       (BuiltinDecl ''run'' [KFilesystem]) [StringValue ''echo''] [HostOption ''env''] None
       (FilesystemValue (Filesystem [''scratch'']))
     = Inr (FilesystemValue (Filesystem [''scratch'', ''run'', ''echo'', ''env'', ''a'', ''b''])) \<and>
   EmitCallStmt example_host (run example_host 1) example_cg
       (WithReturnType example_ctx KFilesystem) (Some 0)
       (CallStmt (NewIdentExpr ''run'') [KString] [string_expr ''echo hi''] None None) None
       (Register (FilesystemValue (Filesystem [''scratch'']))) main_store
     = (Inr (Register (FilesystemValue (Filesystem [''scratch'', ''run'', ''echo hi'', ''a'', ''b'']))),
        main_store)"
proof -
  let ?c = "WithReturnType example_ctx KFilesystem"
  let ?bd = "BuiltinDecl ''run'' [KFilesystem]"
  let ?t = "builtin_type [] (Some stringT)"
  let ?v = "FilesystemValue (Filesystem [''scratch''])"
  let ?call = "CallStmt (NewIdentExpr ''run'') [KString] [string_expr ''echo hi''] None None
                 :: expr call_stmt"
  let ?f = "\<lambda>callable ins.
          if 4 \<le> length ins \<and>
             ins ! 3 = RV_Option [HostOption ''env'', SolveOptionItem (SolveOption ''a''),
                                  SolveOptionItem (SolveOption ''b'')]
          then host_Invoke callable ins else (None, Some (HostError ''other options''))"
  have xs: "extraSolveOpts example_cg = [SolveOption ''a'', SolveOption ''b'']"
    by (simp add: example_cg_def New_def WithExtraSolveOpts_def)
  have cl: "(if ReturnType ?c \<noteq> KNone then Callables_at (ReturnType ?c) (bd_Name ?bd)
             else first_callable (Kinds ?bd) (bd_Name ?bd)) = Some ''Run''"
    by (simp add: WithReturnType_def example_ctx_def Callables_at_def Callables_def)
  have t: "Method_Call example_host ''Run'' = Some ?t"
    by (simp add: example_host_def host_Method_Call_def)
  have p: "length (PrototypeIn example_host) = 4"
    by (simp add: example_host_def)
  have co: "coerced example_host ?t [StringValue s] [RV_Reflected stringT (StringValue s)]" for s
    by (simp add: coerced_def builtin_type_def example_host_def stringT_def)
  have ev: "Evaluate (run example_host 1) example_cg (WithFrame ?c (Frame (cs_Name ?call)))
              (Some 0) None (cs_Signature ?call) (cs_Args ?call) main_store
            = (Inr [StringValue ''echo hi''], main_store)"
    by (simp add: Evaluate_def EmitExpr_string_expr)
  have dbg: "Debug example_cg c' \<sigma> scope n ret opts = None" for c' \<sigma> scope n ret opts
    by (simp add: example_cg_def New_def WithExtraSolveOpts_def NewNoopDebugger_def)
  have lk: "Lookup main_store (Some 0) (Text (ie_Ident (cs_Name ?call)))
              = Inr (Some (0, decl_object KFilesystem ''run'' (NBuiltinDecl ?bd)))"
    by (simp add: Lookup_def main_store_def main_objects_def deref_def NewIdentExpr_def)
  have nd: "Node (decl_object KFilesystem ''run'' (NBuiltinDecl ?bd)) = NBuiltinDecl ?bd"
    by (simp add: decl_object_def)
  have bp: "\<not> Breakpoint example_host ?call (ReturnType ?c)"
    by (simp add: example_host_def)
  have inv: "Invoke example_host = host_Invoke"
    by (simp add: example_host_def)
  have f: "\<forall>callable ins. 4 \<le> length ins \<and>
             ins ! 3 = RV_Option ([HostOption ''env''] @
                                  map SolveOptionItem (extraSolveOpts example_cg)) \<longrightarrow>
             ?f callable ins = Invoke example_host callable ins"
    by (simp add: xs inv)
  note inst = extra_solve_opts_passed [where cl = "Client ''buildkit''"
        and r = "\<lambda>c i fs. Inl (HostError ''no resolver'')"
        and extras = "[[SolveOption ''a''], [SolveOption ''b'']]"
        and opts = "[HostOption ''env'']" and cg = example_cg and x = example_host
        and c = ?c and scope = "Some 0" and bd = ?bd and args = "[StringValue ''echo'']"
        and b = None and v = ?v and rc = "run example_host 1"
        and ret = "Register ?v" and \<sigma> = main_store]
  from inst have 1: "EmitBuiltinDecl example_host example_cg ?c (Some 0) ?bd
         [StringValue ''echo''] [HostOption ''env''] None ?v
       = call_outcome ?c (Invoke example_host ''Run''
           ([RV_ctx ?c, RV_client (cln example_cg), RV_Value ?v,
             RV_Option ([HostOption ''env''] @ map SolveOptionItem (extraSolveOpts example_cg))]
            @ [RV_Reflected stringT (StringValue ''echo'')]))"
    using cl t p co [of "''echo''"] by (simp del: append.simps)
  note inst3 = conjunct1 [OF conjunct2 [OF conjunct2 [OF inst]]]
  note inst4 = conjunct2 [OF conjunct2 [OF conjunct2 [OF inst]]]
  from inst3 [THEN spec [where x = "?f"], THEN mp, OF f] have 2: "EmitBuiltinDecl (example_host\<lparr>Invoke := ?f\<rparr>) example_cg ?c (Some 0) ?bd
         [StringValue ''echo''] [HostOption ''env''] None ?v
       = EmitBuiltinDecl example_host example_cg ?c (Some 0) ?bd
         [StringValue ''echo''] [HostOption ''env''] None ?v" .
  let ?obj = "decl_object KFilesystem ''run'' (NBuiltinDecl ?bd)"
  have h: "WithClause ?call = None \<and> \<not> Breakpoint example_host ?call (ReturnType ?c) \<and>
      Evaluate (run example_host 1) example_cg (WithFrame ?c (Frame (cs_Name ?call))) (Some 0)
        None (cs_Signature ?call) (cs_Args ?call) main_store
        = (Inr [StringValue ''echo hi''], main_store) \<and>
      Debug example_cg (WithArgs (WithFrame ?c (Frame (cs_Name ?call))) 0 (cs_Args ?call))
        main_store (Some 0) (NIdentExpr (cs_Name ?call)) (Register ?v) [] = None \<and>
      Lookup main_store (Some 0) (Text (ie_Ident (cs_Name ?call))) = Inr (Some (0, ?obj)) \<and>
      Node ?obj = NBuiltinDecl ?bd \<and>
      (if ReturnType ?c \<noteq> KNone then Callables_at (ReturnType ?c) (bd_Name ?bd)
       else first_callable (Kinds ?bd) (bd_Name ?bd)) = Some ''Run'' \<and>
      Method_Call example_host ''Run'' = Some ?t \<and> length (PrototypeIn example_host) = 4 \<and>
      coerced example_host ?t [StringValue ''echo hi'']
        [RV_Reflected stringT (StringValue ''echo hi'')]"
    by (intro conjI ev dbg lk nd bp cl t p co) simp
  have 3: "EmitCallStmt example_host (run example_host 1) example_cg ?c (Some 0) ?call
          None (Register ?v) main_store
       = (case call_outcome (WithFrame ?c (Frame (cs_Name ?call)))
                (Invoke example_host ''Run''
                   ([RV_ctx (WithProgramCounter
                               (WithArgs (WithFrame ?c (Frame (cs_Name ?call))) 0 (cs_Args ?call))
                               (NIdentExpr (cs_Name ?call))),
                     RV_client (cln example_cg), RV_Value (reg_Value (Register ?v)),
                     RV_Option (map SolveOptionItem (extraSolveOpts example_cg))]
                    @ [RV_Reflected stringT (StringValue ''echo hi'')])) of
           Inl err \<Rightarrow> (Inl err, main_store)
         | Inr v' \<Rightarrow> (Inr (Register v'), main_store))"
    by (rule inst4 [rule_format, OF h])
  show ?thesis
    unfolding 2 unfolding 1 3
    by (simp add: xs inv host_Invoke_def call_outcome_def)
qed

section \<open>Calling a host callable\<close>

text \<open>
  Claim C4. \<^verbatim>\<open>EmitIdentExpr\<close> resolves the identifier to a built-in whose callable has
  the method type \<open>t\<close>, for a prototype of four inputs. When every argument is coerced
  without error, the callable is called with the four common inputs, then the arguments
  of the fixed parameters coerced to the parameter types (\<open>regular\<close>), then, for a variadic
  callable, every remaining argument coerced to the element type of the variadic tail, in
  order (\<open>tail\<close>). If the call returns an error that is not nil, \<^verbatim>\<open>EmitBuiltinDecl\<close>
  returns that error under the frames of the context, and \<^verbatim>\<open>EmitIdentExpr\<close> returns
  it with no register written; if it returns a value and a nil error, the value is the
  new content of the register.
\<close>

theorem EmitBuiltinDecl_variadic_call:
  assumes lookup: "Lookup \<sigma> scope (Text lookup) = Inr (Some (a, obj))"
    and node: "Node obj = NBuiltinDecl bd"
    and callable: "(if ReturnType c \<noteq> KNone then Callables_at (ReturnType c) (bd_Name bd)
                    else first_callable (Kinds bd) (bd_Name bd)) = Some callable"
    and t: "Method_Call x callable = Some t"
    and proto: "length (PrototypeIn x) = 4"
    and params: "4 \<le> length (ft_Params t)"
    and nargs: "length (ft_Params t) - 4 \<le> length args"
    and regular: "list_all2 (\<lambda>(arg, p) rv. Reflect x arg p = Inr rv)
                    (zip (take (length (ft_Params t) - 4) args) (drop 4 (ft_Params t))) regular"
    and tail: "case ft_Variadic t of None \<Rightarrow> tail = []
               | Some param \<Rightarrow> list_all2 (\<lambda>arg rv. Reflect x arg param = Inr rv)
                                (drop (length (ft_Params t) - 4) args) tail"
    and c': "c' = (case b of None \<Rightarrow> WithProgramCounter c (NIdentExpr ie)
                   | Some bb \<Rightarrow> WithBinding (WithProgramCounter c (NIdentExpr ie)) bb)"
    and ins: "ins = [RV_ctx c', RV_client (cln cg), RV_Value (reg_Value ret),
                     RV_Option (opts @ map SolveOptionItem (extraSolveOpts cg))] @ regular @ tail"
  shows "(\<forall>out err. Invoke x callable ins = (out, Some err) \<longrightarrow>
            EmitBuiltinDecl x cg (WithProgramCounter c (NIdentExpr ie)) scope bd args opts b (reg_Value ret)
              = Inl (BacktraceError (Frames c) err) \<and>
            EmitIdentExpr x rc cg c scope ie lookup args opts b ret \<sigma>
              = (Inl (BacktraceError (Frames c) err), \<sigma>)) \<and>
         (\<forall>v'. Invoke x callable ins = (Some v', None) \<longrightarrow>
            EmitBuiltinDecl x cg (WithProgramCounter c (NIdentExpr ie)) scope bd args opts b (reg_Value ret)
              = Inr v' \<and>
            EmitIdentExpr x rc cg c scope ie lookup args opts b ret \<sigma> = (Inr (Register v'), \<sigma>))"
proof -
  let ?c = "WithProgramCounter c (NIdentExpr ie)"
  let ?opts = "opts @ map SolveOptionItem (extraSolveOpts cg)"
  define nf where "nf = length (ft_Params t) - 4"
  have lp: "length (ft_Params t) = nf + 4"
    using params by (simp add: nf_def)
  have r1: "reflect_args x (zip (take nf args) (drop 4 (ft_Params t))) = Inr regular"
    using regular unfolding nf_def by (rule reflect_args_all2)
  have r2: "ft_Variadic t = Some param \<Longrightarrow>
              reflect_args x (map (\<lambda>arg. (arg, param)) (drop nf args)) = Inr tail" for param
  proof -
    assume "ft_Variadic t = Some param"
    with tail have "list_all2 (\<lambda>(arg, p) rv. Reflect x arg p = Inr rv)
          (map (\<lambda>arg. (arg, param)) (drop nf args)) tail"
      by (simp add: list_all2_map1 nf_def)
    then show ?thesis by (rule reflect_args_all2)
  qed
  have na: "nf \<le> length args"
    using nargs by (simp add: nf_def)
  have bi: "builtin_ins x c' (cln cg) bd t args ?opts (reg_Value ret) = Inr ins"
    using na tail by (auto simp: builtin_ins_def Let_def proto lp r1 r2 ins split: option.splits)
  have "length (zip (take nf args) (drop 4 (ft_Params t))) = nf"
    using na lp by simp
  moreover have "length (zip (take nf args) (drop 4 (ft_Params t))) = length regular"
    using regular unfolding nf_def by (rule list_all2_lengthD)
  ultimately have lr: "length regular = nf"
    by simp
  have len: "length (ft_Params t) \<le> length ins"
    using lr lp by (simp add: ins)
  have len2: "ft_Variadic t = None \<Longrightarrow> length ins = length (ft_Params t)"
    using lr lp tail by (simp add: ins)
  have fr: "Frames c' = Frames c"
    by (simp add: c' WithBinding_def WithProgramCounter_def split: option.splits)
  have rt: "ReturnType ?c = ReturnType c"
    by (simp add: WithProgramCounter_def)
  have ebd: "EmitBuiltinDecl x cg ?c scope bd args opts b (reg_Value ret)
      = (case Invoke x callable ins of (_, Some err) \<Rightarrow> Inl (BacktraceError (Frames c) err)
         | (None, None) \<Rightarrow> Inl (Panic ''interface conversion: interface is nil, not codegen.Value'')
         | (Some v', None) \<Rightarrow> Inr v')"
  proof (cases "ft_Variadic t")
    case None
    with len2 have "length ins = length (ft_Params t)" by simp
    with None show ?thesis
      unfolding EmitBuiltinDecl_def rt callable
      by (auto simp: Let_def t c'[symmetric] bi IsVariadic_def WithBacktraceError_def fr
               split: option.splits prod.splits)
  next
    case (Some param)
    with len show ?thesis
      unfolding EmitBuiltinDecl_def rt callable
      by (auto simp: Let_def t c'[symmetric] bi IsVariadic_def WithBacktraceError_def fr
               split: option.splits prod.splits)
  qed
  have eie: "EmitIdentExpr x rc cg c scope ie lookup args opts b ret \<sigma>
      = SetAsync (\<lambda>v \<sigma>. (EmitBuiltinDecl x cg ?c scope bd args opts b v, \<sigma>)) ret \<sigma>"
    using lookup node by (simp add: EmitIdentExpr_def Let_def)
  show ?thesis
    by (auto simp: eie ebd SetAsync_def split: option.splits)
qed


theorem EmitBuiltinDecl_variadic_call_witness:
  "EmitIdentExpr example_host (run example_host 0) example_cg
       (WithFrame (WithReturnType example_ctx KFilesystem) (Frame (NewIdentExpr ''run'')))
       (Some 0) (NewIdentExpr ''run'') (Ident ''run'')
       [StringValue ''echo'', StringValue ''hi''] [HostOption ''env''] None
       (Register (FilesystemValue (Filesystem [''scratch'']))) builtin_scope
     = (Inr (Register (FilesystemValue
              (Filesystem [''scratch'', ''run'', ''echo'', ''hi'', ''env'', ''a'', ''b'']))),
        builtin_scope) \<and>
   EmitIdentExpr example_host (run example_host 0) example_cg
       (WithFrame (WithReturnType example_ctx KFilesystem) (Frame (NewIdentExpr ''run'')))
       (Some 0) (NewIdentExpr ''run'') (Ident ''run'') [] [] None
       (Register (FilesystemValue (Filesystem [''scratch'']))) builtin_scope
     = (Inl (BacktraceError [Frame (NewIdentExpr ''run'')] (HostError ''no command'')),
        builtin_scope)"
proof -
  let ?c = "WithFrame (WithReturnType example_ctx KFilesystem) (Frame (NewIdentExpr ''run''))"
  let ?bd = "BuiltinDecl ''run'' [KFilesystem]"
  let ?obj = "\<lparr>Kind = KFilesystem, obj_Ident = Ident ''run'', Node = NBuiltinDecl ?bd,
               Data = DataNil\<rparr>"
  let ?t = "builtin_type [] (Some stringT)"
  let ?args = "[StringValue ''echo'', StringValue ''hi'']"
  let ?tail = "[RV_Reflected stringT (StringValue ''echo''),
                RV_Reflected stringT (StringValue ''hi'')]"
  have l: "Lookup builtin_scope (Some 0) (Text (Ident ''run'')) = Inr (Some (0, ?obj))"
    by (simp add: Lookup_def builtin_scope_def deref_def)
  have n: "Node ?obj = NBuiltinDecl ?bd"
    by simp
  have cl: "(if ReturnType ?c \<noteq> KNone then Callables_at (ReturnType ?c) (bd_Name ?bd)
             else first_callable (Kinds ?bd) (bd_Name ?bd)) = Some ''Run''"
    by (simp add: WithFrame_def WithReturnType_def example_ctx_def Callables_at_def
          Callables_def)
  have t: "Method_Call example_host ''Run'' = Some ?t"
    by (simp add: example_host_def host_Method_Call_def)
  have p: "length (PrototypeIn example_host) = 4"
    by (simp add: example_host_def)
  have ps: "4 \<le> length (ft_Params ?t)"
    by (simp add: builtin_type_def)
  have na: "length (ft_Params ?t) - 4 \<le> length ?args"
    by (simp add: builtin_type_def)
  have na0: "length (ft_Params ?t) - 4 \<le> length ([] :: Value list)"
    by (simp add: builtin_type_def)
  have r: "list_all2 (\<lambda>(arg, p) rv. Reflect example_host arg p = Inr rv)
             (zip (take (length (ft_Params ?t) - 4) ?args) (drop 4 (ft_Params ?t))) []"
    by (simp add: builtin_type_def)
  have r0: "list_all2 (\<lambda>(arg, p) rv. Reflect example_host arg p = Inr rv)
             (zip (take (length (ft_Params ?t) - 4) []) (drop 4 (ft_Params ?t))) []"
    by (simp add: builtin_type_def)
  have tl: "case ft_Variadic ?t of None \<Rightarrow> ?tail = []
            | Some param \<Rightarrow> list_all2 (\<lambda>arg rv. Reflect example_host arg param = Inr rv)
                             (drop (length (ft_Params ?t) - 4) ?args) ?tail"
    by (simp add: builtin_type_def example_host_def stringT_def)
  have tl0: "case ft_Variadic ?t of None \<Rightarrow> [] = ([] :: rvalue list)
            | Some param \<Rightarrow> list_all2 (\<lambda>arg rv. Reflect example_host arg param = Inr rv)
                             (drop (length (ft_Params ?t) - 4) []) []"
    by (simp add: builtin_type_def)
  show ?thesis
    using EmitBuiltinDecl_variadic_call [OF l n cl t p ps na r tl refl refl,
        where rc = "run example_host 0" and opts = "[HostOption ''env'']" and b = None
          and cg = example_cg and ie = "NewIdentExpr ''run''"
          and ret = "Register (FilesystemValue (Filesystem [''scratch'']))"]
      EmitBuiltinDecl_variadic_call [OF l n cl t p ps na0 r0 tl0 refl refl,
        where rc = "run example_host 0" and opts = "[]" and b = None
          and cg = example_cg and ie = "NewIdentExpr ''run''"
          and ret = "Register (FilesystemValue (Filesystem [''scratch'']))"]
    by (simp add: example_host_def host_Invoke_def example_cg_def New_def WithExtraSolveOpts_def
          WithFrame_def WithReturnType_def WithProgramCounter_def example_ctx_def)
qed

section \<open>Heredocs\<close>







section \<open>The registry check at initialisation\<close>




















section \<open>Imports (C7)\<close>

lemma import_outcome_open:
  "import_outcome x c imp \<sigma> dir filename
     (case Open x dir filename of
        Inl err \<Rightarrow>
          if \<not> IsNotExist x err then (Inl err, \<sigma>)
          else (Inl (ImportPathNotExist err (not_exist_node imp) filename), \<sigma>)
      | Inr f \<Rightarrow>
         (case load_module x c (length \<sigma>) dir f of
            Inl err \<Rightarrow> (Inl err, \<sigma>)
          | Inr (imod, scopes) \<Rightarrow> (Inr (imod, filename), \<sigma> @ scopes)))"
  unfolding import_outcome_def
  by (auto simp: not_exist_node_def load_module_def
           split: sum.splits option.splits prod.splits expr.splits)

text \<open>
  Claim C7. \<open>EmitImport\<close> evaluates the import expression with return type none on a fresh
  register in the importing module's scope. When the value is a filesystem, the file
  \<open>ModuleFilename\<close> is opened in the directory the resolver returns; when it is a string, that
  string is opened in the importing module's directory. A file that does not exist yields
  \<open>ImportPathNotExist\<close> on the most specific node; a file that opens is parsed, checked, and the
  checked module returned with the file name.
\<close>

theorem EmitImport_outcome:
  assumes "rEmitExpr rc cg (WithReturnType c KNone) (mod_Scope mdl) (id_Expr imp) [] [] None
             NewRegister \<sigma> = (Inr ret, \<sigma>1)"
  shows "(\<forall>fs dir. reg_Value ret = FilesystemValue fs \<and>
                   resolver cg (WithReturnType c KNone) imp fs = Inr dir \<longrightarrow>
            import_outcome x (WithReturnType c KNone) imp \<sigma>1 dir (ModuleFilename x)
              (EmitImport x rc cg c mdl imp \<sigma>)) \<and>
         (\<forall>filename. reg_Value ret = StringValue filename \<longrightarrow>
            import_outcome x (WithReturnType c KNone) imp \<sigma>1 (Directory mdl) filename
              (EmitImport x rc cg c mdl imp \<sigma>))"
proof (intro conjI allI impI)
  fix fs dir
  assume "reg_Value ret = FilesystemValue fs \<and>
          resolver cg (WithReturnType c KNone) imp fs = Inr dir"
  then have "import_target x cg (WithReturnType c KNone) mdl imp (reg_Value ret)
               = Inr (dir, ModuleFilename x)"
    by (simp add: import_target_def Value_Filesystem_def)
  then show "import_outcome x (WithReturnType c KNone) imp \<sigma>1 dir (ModuleFilename x)
               (EmitImport x rc cg c mdl imp \<sigma>)"
    using assms import_outcome_open [of x "WithReturnType c KNone" imp \<sigma>1 dir "ModuleFilename x"]
    by (simp add: EmitImport_def Let_def)
next
  fix filename
  assume "reg_Value ret = StringValue filename"
  then have "import_target x cg (WithReturnType c KNone) mdl imp (reg_Value ret)
               = Inr (Directory mdl, filename)"
    by (simp add: import_target_def Value_String_def)
  then show "import_outcome x (WithReturnType c KNone) imp \<sigma>1 (Directory mdl) filename
               (EmitImport x rc cg c mdl imp \<sigma>)"
    using assms import_outcome_open [of x "WithReturnType c KNone" imp \<sigma>1 "Directory mdl" filename]
    by (simp add: EmitImport_def Let_def)
qed

theorem EmitImport_outcome_witness:
  "EmitImport example_host (run example_host 1) example_cg example_ctx main_mod m_import main_store
     = (Inr (Module ''m.hlb'' (Directory_at ''.'') (Some 1), ''./m.hlb''),
        main_store @ [imported_scope 1 (Module ''m.hlb'' (Directory_at ''.'') None)]) \<and>
   EmitImport example_host (run example_host 1) example_cg example_ctx main_mod missing_import
       main_store
     = (Inl (ImportPathNotExist (HostError ''not exist'') (NExpr (string_expr ''./nope.hlb''))
               ''./nope.hlb''), main_store)"
proof -
  let ?c = "WithReturnType example_ctx KNone"
  let ?dir = "Directory_at ''.''"
  let ?parsed = "Module ''m.hlb'' (Directory_at []) None"
  let ?sem = "(imported_module 1 (Module ''m.hlb'' ?dir None),
               [imported_scope 1 (Module ''m.hlb'' ?dir None)])"
  have m: "rEmitExpr (run example_host 1) example_cg ?c
             (mod_Scope main_mod) (id_Expr m_import) [] [] None NewRegister main_store
           = (Inr (Register (StringValue ''./m.hlb'')), main_store)"
    by (simp add: m_import_def EmitExpr_string_expr)
  have n: "rEmitExpr (run example_host 1) example_cg ?c
             (mod_Scope main_mod) (id_Expr missing_import) [] [] None NewRegister main_store
           = (Inr (Register (StringValue ''./nope.hlb'')), main_store)"
    by (simp add: missing_import_def EmitExpr_string_expr)
  have d: "Directory main_mod = ?dir"
    by (simp add: main_mod_def)
  have l: "length main_store = 1"
    by (simp add: main_store_def)
  have o: "Open example_host ?dir ''./m.hlb'' = Inr (SourceFile ''fs foo() { scratch; }'')"
    by (simp add: example_host_def)
  have p: "Parse example_host ?c (SourceFile ''fs foo() { scratch; }'') = Inr ?parsed"
    by (simp add: example_host_def)
  have s: "SemanticPass example_host (length main_store)
             (Module (mod_Filename ?parsed) ?dir (mod_Scope ?parsed)) = (None, ?sem)"
    by (simp add: example_host_def l)
  have k: "Check example_host (Lint example_host ?c ?sem)
             = (None, imported_module 1 (Module ''m.hlb'' ?dir None),
                [imported_scope 1 (Module ''m.hlb'' ?dir None)])"
    by (simp add: example_host_def)
  have o': "Open example_host ?dir ''./nope.hlb'' = Inl (HostError ''not exist'')"
    by (simp add: example_host_def)
  have e': "IsNotExist example_host (HostError ''not exist'')"
    by (simp add: example_host_def)
  have "import_outcome example_host ?c m_import main_store ?dir ''./m.hlb''
          (EmitImport example_host (run example_host 1) example_cg example_ctx main_mod
             m_import main_store)"
    using EmitImport_outcome [OF m, of example_host] by (simp add: d)
  then have 1: "EmitImport example_host (run example_host 1) example_cg example_ctx main_mod
                  m_import main_store
                = (Inr (imported_module 1 (Module ''m.hlb'' ?dir None), ''./m.hlb''),
                   main_store @ [imported_scope 1 (Module ''m.hlb'' ?dir None)])"
    unfolding import_outcome_def using o p s k by blast
  have "import_outcome example_host ?c missing_import main_store ?dir ''./nope.hlb''
          (EmitImport example_host (run example_host 1) example_cg example_ctx main_mod
             missing_import main_store)"
    using EmitImport_outcome [OF n, of example_host] by (simp add: d)
  then have 2: "EmitImport example_host (run example_host 1) example_cg example_ctx main_mod
                  missing_import main_store
                = (Inl (ImportPathNotExist (HostError ''not exist'')
                          (case DeprecatedPath missing_import of Some p \<Rightarrow> NStringLit p
                           | None \<Rightarrow> (case id_Expr missing_import of
                                         ExprFuncLit lit \<Rightarrow> NType (fl_Type lit)
                                       | _ \<Rightarrow> NExpr (id_Expr missing_import)))
                          ''./nope.hlb''), main_store)"
    unfolding import_outcome_def using o' e' by blast
  show ?thesis
    unfolding 1 2
    by (simp add: imported_module_def missing_import_def string_expr_def)
qed

end
